theory Spec2Isabelle
  imports Complex_Main
begin

section \<open>Geometry primitives\<close>

text \<open>
  The source computes in IEEE doubles (\<open>Vec2d\<close>) over integer input points (\<open>Point\<close>).
  Doubles are embedded as exact reals: rounding, overflow and the NaNs produced by
  arithmetic are outside this model. The one NaN the algorithm uses on purpose, the
  sentinel in the per-edge intersection array, is modelled explicitly further down.
  \<open>coord_t\<close> is declared outside the file; input coordinates are unbounded integers here.
\<close>

type_synonym Vec2d = "real \<times> real"
type_synonym Point = "int \<times> int"

record Line =
  a :: Point
  b :: Point

definition cast_double :: "Point \<Rightarrow> Vec2d" where
  "cast_double p = (real_of_int (fst p), real_of_int (snd p))"

definition vsub :: "Vec2d \<Rightarrow> Vec2d \<Rightarrow> Vec2d" where
  "vsub p q = (fst p - fst q, snd p - snd q)"

definition vadd :: "Vec2d \<Rightarrow> Vec2d \<Rightarrow> Vec2d" where
  "vadd p q = (fst p + fst q, snd p + snd q)"

definition vscale :: "real \<Rightarrow> Vec2d \<Rightarrow> Vec2d" where
  "vscale t p = (t * fst p, t * snd p)"

definition dot :: "Vec2d \<Rightarrow> Vec2d \<Rightarrow> real" where
  "dot p q = fst p * fst q + snd p * snd q"

definition squaredNorm :: "Vec2d \<Rightarrow> real" where
  "squaredNorm p = fst p * fst p + snd p * snd p"

definition norm2 :: "Vec2d \<Rightarrow> real" where
  "norm2 p = sqrt (squaredNorm p)"

definition psub :: "Point \<Rightarrow> Point \<Rightarrow> Point" where
  "psub p q = (fst p - fst q, snd p - snd q)"

definition swap_xy :: "Vec2d \<Rightarrow> Vec2d" where
  "swap_xy p = (snd p, fst p)"

text \<open>
  Modelled from the spec: \<open>cross2\<close> is declared outside the file (the spec lists the
  cross product among the generic primitives). The assertion in
  \<open>line_point_equal_distance_points\<close> that the shifted line point satisfies
  \<open>a x + b y + c = 0\<close> fixes its sign convention.
\<close>

definition cross2 :: "Vec2d \<Rightarrow> Vec2d \<Rightarrow> real" where
  "cross2 v1 v2 = fst v1 * snd v2 - snd v1 * fst v2"

text \<open>
  Modelled from the spec: \<open>Geometry::foot_pt\<close> and \<open>Geometry::ray_point_distance\<close> are
  declared outside the file; the spec names them foot point and perpendicular distance
  from a point to the line through \<open>origin\<close> with direction \<open>dir\<close>.
\<close>

definition foot_pt :: "Vec2d \<Rightarrow> Vec2d \<Rightarrow> Vec2d \<Rightarrow> Vec2d" where
  "foot_pt origin dir pt =
     (let l2 = squaredNorm dir;
          t = (if l2 = 0 then 0 else dot (vsub pt origin) dir / l2)
      in vadd origin (vscale t dir))"

definition ray_point_distance :: "Vec2d \<Rightarrow> Vec2d \<Rightarrow> Vec2d \<Rightarrow> real" where
  "ray_point_distance origin dir pt = norm2 (vsub (foot_pt origin dir pt) pt)"

section \<open>Geometric kernels\<close>

text \<open>
  Both kernels decide the number of points they return by the sign of a computed
  quantity (\<open>discr\<close>, \<open>s\<close>). In the model the sign is that of the exact value. Where the
  exact value is zero or within rounding of zero, the double computation of the source can
  decide otherwise; which inputs these are, and how far a returned point is from the
  requested distance, are properties of the binary64 arithmetic and not of this model.
\<close>

record Intersections =
  count :: int
  pts0 :: Vec2d
  pts1 :: Vec2d

text \<open>
  \<open>point_point_equal_distance_points\<close>: at most two points at distance \<open>d\<close> from both
  points. The points of a result with \<open>count = 0\<close> are default constructed in the source;
  they are the origin here.
\<close>

definition point_point_equal_distance_points :: "Point \<Rightarrow> Point \<Rightarrow> real \<Rightarrow> Intersections" where
  "point_point_equal_distance_points pt1 pt2 d =
     (let cx0 = real_of_int (fst pt1 - fst pt2);
          cy0 = real_of_int (snd pt1 - snd pt2);
          cl = cx0 * cx0 + cy0 * cy0;
          discr = 4 * d * d - cl
      in if discr < 0 then \<lparr>count = 0, pts0 = (0, 0), pts1 = (0, 0)\<rparr>
         else
           let xy_swapped = \<bar>cx0\<bar> < \<bar>cy0\<bar>;
               cx = (if xy_swapped then cy0 else cx0);
               cy = (if xy_swapped then cx0 else cy0);
               cnt = (if discr = 0 then 1 else 2);
               u = (if discr = 0 then 0 else 0.5 * cx * sqrt (cl * discr) / cl);
               v = 0.5 * cy - u;
               w = 2 * cy;
               e = 0.5 / cx;
               f = 0.5 * cy + u;
               o0 = (- e * (v * w - cl), v);
               o1 = (- e * (w * f - cl), f);
               q0 = (if xy_swapped then swap_xy o0 else o0);
               q1 = (if xy_swapped then swap_xy o1 else o1)
           in \<lparr>count = cnt, pts0 = vadd q0 (cast_double pt2), pts1 = vadd q1 (cast_double pt2)\<rparr>)"

text \<open>
  \<open>line_point_equal_distance_points\<close>: at most two points at distance \<open>d\<close> from both the
  line and the point.
\<close>

definition line_point_equal_distance_points :: "Line \<Rightarrow> Point \<Rightarrow> real \<Rightarrow> Intersections" where
  "line_point_equal_distance_points line ipt d =
     (let pt = cast_double ipt;
          lv0 = cast_double (psub (b line) (a line));
          l2 = squaredNorm lv0;
          lpv = cast_double (psub (a line) ipt);
          c0 = cross2 lpv lv0;
          lv = (if c0 < 0 then vscale (- 1) lv0 else lv0);
          c = (if c0 < 0 then - c0 else c0);
          a0 = - snd lv;
          b0 = fst lv;
          dscaled = d * sqrt l2;
          s = c * (2 * dscaled - c)
      in if s < 0 then \<lparr>count = 0, pts0 = (0, 0), pts1 = (0, 0)\<rparr>
         else
           let xy_swapped = \<bar>a0\<bar> < \<bar>b0\<bar>;
               la = (if xy_swapped then b0 else a0);
               lb = (if xy_swapped then a0 else b0);
               cnt = (if s = 0 then 1 else 2);
               u = (if s = 0 then 0 else la * sqrt s / l2);
               e = dscaled - c;
               f = lb * e / l2;
               g = f - u;
               h = f + u;
               o0 = ((- lb * g + e) / la, g);
               o1 = ((- lb * h + e) / la, h);
               q0 = (if xy_swapped then swap_xy o0 else o0);
               q1 = (if xy_swapped then swap_xy o1 else o1)
           in \<lparr>count = cnt, pts0 = vadd q0 pt, pts1 = vadd q1 pt\<rparr>)"

text \<open>
  The two quantities of \<open>line_point_equal_distance_points\<close> that decide the number of
  points: the cross product \<open>c\<close> before its sign is normalised, and \<open>s\<close>.
\<close>

definition lp_c0 :: "Line \<Rightarrow> Point \<Rightarrow> real" where
  "lp_c0 line ipt = cross2 (cast_double (psub (a line) ipt)) (cast_double (psub (b line) (a line)))"


text \<open>
  A point on the infinite line through the end points of a line, in integer arithmetic.
\<close>

definition on_line :: "Line \<Rightarrow> Point \<Rightarrow> bool" where
  "on_line line ipt =
     ((fst (a line) - fst ipt) * (snd (b line) - snd (a line))
        = (snd (a line) - snd ipt) * (fst (b line) - fst (a line)))"


text \<open>
  \<open>first_circle_segment_intersection_parameter\<close>: intersect a circle with a ray, used for
  unbounded Voronoi edges only.
\<close>

text \<open>Modelled from the spec: \<open>Slic3r::clamp\<close> and \<open>Slic3r::lerp\<close> are declared outside the file.\<close>

definition clamp :: "real \<Rightarrow> real \<Rightarrow> real \<Rightarrow> real" where
  "clamp low high v = max low (min high v)"

definition lerp :: "Vec2d \<Rightarrow> Vec2d \<Rightarrow> real \<Rightarrow> Vec2d" where
  "lerp p q t = vadd (vscale (1 - t) p) (vscale t q)"

definition normalized :: "Vec2d \<Rightarrow> Vec2d" where
  "normalized v = (if 0 < squaredNorm v then vscale (1 / norm2 v) v else v)"

definition first_circle_segment_intersection_parameter :: "Vec2d \<Rightarrow> real \<Rightarrow> Vec2d \<Rightarrow> Vec2d \<Rightarrow> real" where
  "first_circle_segment_intersection_parameter center r pt v =
     (let d = vsub pt center;
          qa = squaredNorm v;
          qb = 2 * dot d v;
          qc = squaredNorm d - r * r;
          u = qb * qb - 4 * qa * qc
      in if u \<le> 0 then clamp 0 1 (- qb / (2 * qa))
         else
           let t0 = (- qb - sqrt u) / (2 * qa);
               t1 = (- qb + sqrt u) / (2 * qa)
           in if t1 < 0 then 0 else if 1 < t0 then 1 else if 0 < t0 then t0 else t1)"

text \<open>The conversion \<open>coord_t(x)\<close> of a double truncates towards zero.\<close>

definition trunc_coord :: "real \<Rightarrow> int" where
  "trunc_coord x = (if 0 \<le> x then \<lfloor>x\<rfloor> else \<lceil>x\<rceil>)"

section \<open>The Voronoi diagram\<close>

text \<open>
  Modelled from the spec: the half-edge diagram is built by an external library and only
  read here. Pointers are indices into the three arrays of the diagram, an absent vertex
  is \<open>None\<close>. Each cell has the index of its source line and a source category; cells of
  category \<open>SOURCE_CATEGORY_SEGMENT\<close> contain a segment, the others a point.
\<close>

datatype VertexCategory = VC_Unknown | VC_Inside | VC_Outside | VC_OnContour

datatype EdgeCategory = EC_Unknown | EC_PointsInside | EC_PointsOutside | EC_PointsToContour

datatype CellCategory = CC_Unknown | CC_Inside | CC_Outside | CC_Boundary

datatype SourceCategory =
  SOURCE_CATEGORY_SEGMENT | SOURCE_CATEGORY_SEGMENT_START_POINT | SOURCE_CATEGORY_SEGMENT_END_POINT

record vertex_type =
  vertex_x :: real
  vertex_y :: real
  vertex_incident_edge :: nat
  vertex_category :: VertexCategory

record edge_type =
  cell :: nat
  vertex0 :: "nat option"
  vertex1 :: "nat option"
  twin :: nat
  edge_next :: nat
  rot_next :: nat
  is_secondary :: bool
  edge_category :: EdgeCategory

record cell_type =
  source_index :: nat
  source_category :: SourceCategory
  cell_incident_edge :: nat
  cell_category :: CellCategory

record VD =
  vertices :: "vertex_type list"
  edges :: "edge_type list"
  cells :: "cell_type list"

definition contains_point :: "cell_type \<Rightarrow> bool" where
  "contains_point c = (source_category c \<noteq> SOURCE_CATEGORY_SEGMENT)"

definition contains_segment :: "cell_type \<Rightarrow> bool" where
  "contains_segment c = (source_category c = SOURCE_CATEGORY_SEGMENT)"

definition contour_point :: "cell_type \<Rightarrow> Line \<Rightarrow> Point" where
  "contour_point c line =
     (if source_category c = SOURCE_CATEGORY_SEGMENT_START_POINT then a line else b line)"

definition vertex_point :: "vertex_type \<Rightarrow> Vec2d" where
  "vertex_point v = (vertex_x v, vertex_y v)"

definition edge_cell :: "VD \<Rightarrow> nat \<Rightarrow> cell_type" where
  "edge_cell vd e = cells vd ! cell (edges vd ! e)"

text \<open>
  What goes wrong at run time is a value: a null vertex or edge pointer that is
  dereferenced, and a loop that has not ended within its bound.
\<close>

datatype error = NullVertex | NullEdge | OutOfFuel

section \<open>Signed distances of the Voronoi vertices\<close>

text \<open>
  The loop of \<open>signed_vertex_distances\<close> around a vertex: follow \<open>rot_next\<close> from the
  incident edge until an edge of a point cell is found or the first edge is reached again.
  The result is the point cell found, if any, and the edge the loop stopped at; \<open>None\<close>
  when the walk has not ended after \<open>fuel\<close> edges.
\<close>

fun find_point_cell :: "VD \<Rightarrow> nat \<Rightarrow> nat \<Rightarrow> nat \<Rightarrow> (nat option \<times> nat) option" where
  "find_point_cell vd first_edge edge 0 = None"
| "find_point_cell vd first_edge edge (Suc fuel) =
     (if contains_point (edge_cell vd edge) then Some (Some (cell (edges vd ! edge)), edge)
      else let edge' = rot_next (edges vd ! edge)
           in if edge' \<noteq> first_edge then find_point_cell vd first_edge edge' fuel
              else Some (None, edge'))"

definition vertex_signed_distance :: "VD \<Rightarrow> Line list \<Rightarrow> vertex_type \<Rightarrow> error + real" where
  "vertex_signed_distance vd lines vertex =
     (let vc = vertex_category vertex
      in if vc = VC_OnContour then Inr 0
         else
           case find_point_cell vd (vertex_incident_edge vertex) (vertex_incident_edge vertex)
                  (length (edges vd)) of
             None \<Rightarrow> Inl OutOfFuel
           | Some (point_cell, edge) \<Rightarrow>
               let dist =
                 (case point_cell of
                    None \<Rightarrow>
                      let line = lines ! source_index (edge_cell vd edge)
                      in ray_point_distance (cast_double (a line))
                           (cast_double (psub (b line) (a line))) (vertex_point vertex)
                  | Some pc \<Rightarrow>
                      norm2 (vsub (cast_double (contour_point (cells vd ! pc)
                                      (lines ! source_index (cells vd ! pc))))
                                  (vertex_point vertex)))
               in Inr (if vc = VC_Inside then - dist else dist))"

fun collect :: "(error + 'a) list \<Rightarrow> error + 'a list" where
  "collect [] = Inr []"
| "collect (x # xs) =
     (case x of Inl e \<Rightarrow> Inl e
      | Inr v \<Rightarrow> (case collect xs of Inl e \<Rightarrow> Inl e | Inr vs \<Rightarrow> Inr (v # vs)))"

definition signed_vertex_distances :: "VD \<Rightarrow> Line list \<Rightarrow> error + real list" where
  "signed_vertex_distances vd lines = collect (map (vertex_signed_distance vd lines) (vertices vd))"

text \<open>
  The edges around a vertex, in the order of \<open>rot_next\<close>, starting with its incident edge;
  \<open>None\<close> when the walk does not come back to the incident edge within \<open>fuel\<close> edges.
\<close>

fun rot_edges :: "VD \<Rightarrow> nat \<Rightarrow> nat \<Rightarrow> nat \<Rightarrow> nat list option" where
  "rot_edges vd first_edge edge 0 = None"
| "rot_edges vd first_edge edge (Suc fuel) =
     (let edge' = rot_next (edges vd ! edge)
      in if edge' = first_edge then Some [edge]
         else map_option ((#) edge) (rot_edges vd first_edge edge' fuel))"

definition incident_edges :: "VD \<Rightarrow> vertex_type \<Rightarrow> nat list option" where
  "incident_edges vd vertex =
     rot_edges vd (vertex_incident_edge vertex) (vertex_incident_edge vertex) (length (edges vd))"

text \<open>
  The distance of a vertex as the specification words it: zero on the contour, else the
  distance to the site point of an incident point cell if there is one, else the distance
  to the line of the first incident cell; negated for a vertex inside.
\<close>

definition site_point :: "VD \<Rightarrow> Line list \<Rightarrow> nat \<Rightarrow> Vec2d" where
  "site_point vd lines e =
     cast_double (contour_point (edge_cell vd e) (lines ! source_index (edge_cell vd e)))"

definition site_line_distance :: "VD \<Rightarrow> Line list \<Rightarrow> nat \<Rightarrow> Vec2d \<Rightarrow> real" where
  "site_line_distance vd lines e p =
     (let line = lines ! source_index (edge_cell vd e)
      in ray_point_distance (cast_double (a line)) (cast_double (psub (b line) (a line))) p)"

definition unsigned_distance_spec :: "VD \<Rightarrow> Line list \<Rightarrow> vertex_type \<Rightarrow> nat list \<Rightarrow> real" where
  "unsigned_distance_spec vd lines vertex es =
     (case List.find (\<lambda>e. contains_point (edge_cell vd e)) es of
        Some e \<Rightarrow> norm2 (vsub (site_point vd lines e) (vertex_point vertex))
      | None \<Rightarrow> site_line_distance vd lines (vertex_incident_edge vertex) (vertex_point vertex))"

definition signed_distance_spec :: "VD \<Rightarrow> Line list \<Rightarrow> vertex_type \<Rightarrow> nat list \<Rightarrow> real" where
  "signed_distance_spec vd lines vertex es =
     (case vertex_category vertex of
        VC_OnContour \<Rightarrow> 0
      | VC_Inside \<Rightarrow> - unsigned_distance_spec vd lines vertex es
      | _ \<Rightarrow> unsigned_distance_spec vd lines vertex es)"

definition category_sign :: "VertexCategory \<Rightarrow> real" where
  "category_sign vc = (case vc of VC_Inside \<Rightarrow> - 1 | VC_Outside \<Rightarrow> 1 | _ \<Rightarrow> 0)"

definition incident_edges_list :: "VD \<Rightarrow> vertex_type \<Rightarrow> nat list" where
  "incident_edges_list vd vertex = (case incident_edges vd vertex of Some es \<Rightarrow> es | None \<Rightarrow> [])"

text \<open>
  The half-edges from \<open>edge\<close> on, following \<open>next\<close> around a cell until \<open>start_edge\<close> is
  reached; \<open>None\<close> when \<open>next\<close> does not lead to \<open>start_edge\<close> within \<open>fuel\<close> steps.
\<close>

fun next_edges :: "VD \<Rightarrow> nat \<Rightarrow> nat \<Rightarrow> nat \<Rightarrow> nat list option" where
  "next_edges vd start_edge edge 0 = None"
| "next_edges vd start_edge edge (Suc fuel) =
     (if edge = start_edge then Some []
      else map_option ((#) edge) (next_edges vd start_edge (edge_next (edges vd ! edge)) fuel))"


section \<open>Annotation of the diagram\<close>

text \<open>
  Assertions are compiled out of a release build and are not part of the model. The
  categories live in the entities of the diagram; setting one returns the new diagram.
\<close>

definition reset_inside_outside_annotations :: "VD \<Rightarrow> VD" where
  "reset_inside_outside_annotations vd =
     vd\<lparr>vertices := map (\<lambda>v. v\<lparr>vertex_category := VC_Unknown\<rparr>) (vertices vd),
        edges := map (\<lambda>e. e\<lparr>edge_category := EC_Unknown\<rparr>) (edges vd),
        cells := map (\<lambda>c. c\<lparr>cell_category := CC_Unknown\<rparr>) (cells vd)\<rparr>"

definition annotate_vertex :: "VD \<Rightarrow> nat \<Rightarrow> VertexCategory \<Rightarrow> VD" where
  "annotate_vertex vd v new_vertex_category =
     vd\<lparr>vertices := (vertices vd)[v := (vertices vd ! v)\<lparr>vertex_category := new_vertex_category\<rparr>]\<rparr>"

definition annotate_edge :: "VD \<Rightarrow> nat \<Rightarrow> EdgeCategory \<Rightarrow> VD" where
  "annotate_edge vd e new_edge_category =
     vd\<lparr>edges := (edges vd)[e := (edges vd ! e)\<lparr>edge_category := new_edge_category\<rparr>]\<rparr>"

definition set_cell_category :: "VD \<Rightarrow> nat \<Rightarrow> CellCategory \<Rightarrow> VD" where
  "set_cell_category vd c cc =
     vd\<lparr>cells := (cells vd)[c := (cells vd ! c)\<lparr>cell_category := cc\<rparr>]\<rparr>"

text \<open>
  \<open>annotate_cell\<close>: a cell marked outside that is marked inside, or the other way round,
  becomes a boundary cell; a boundary cell stays one. Returns whether the category changed.
\<close>

definition annotate_cell :: "VD \<Rightarrow> nat \<Rightarrow> CellCategory \<Rightarrow> VD \<times> bool" where
  "annotate_cell vd c new_cell_category =
     (let cc = cell_category (cells vd ! c)
      in if cc = CC_Boundary then (vd, False)
         else
           let new' =
                 (if cc = CC_Outside \<and> new_cell_category = CC_Inside then CC_Boundary
                  else if cc = CC_Inside \<and> new_cell_category = CC_Outside then CC_Boundary
                  else new_cell_category)
           in if cc \<noteq> new' then (set_cell_category vd c new', True) else (vd, False))"

definition rounds_to :: "vertex_type \<Rightarrow> Point \<Rightarrow> bool" where
  "rounds_to v pt =
     (trunc_coord (vertex_x v + 0.5) = fst pt \<and> trunc_coord (vertex_y v + 0.5) = snd pt)"

text \<open>
  The first loop, for an unbounded edge (\<open>vertex1 == nullptr\<close>).
\<close>

definition annotate_infinite_edge :: "VD \<Rightarrow> nat \<Rightarrow> error + VD" where
  "annotate_infinite_edge vd e =
     (let edge = edges vd ! e;
          vd1 = annotate_edge vd e EC_PointsOutside;
          vd2 = annotate_edge vd1 (twin edge) EC_PointsToContour
      in case vertex0 edge of
           None \<Rightarrow> Inl NullVertex
         | Some w0 \<Rightarrow>
             let vd3 = annotate_vertex vd2 w0 VC_OnContour
             in if is_secondary edge then
                  let c0 = cell edge;
                      c2' = cell (edges vd ! twin edge);
                      c = (if contains_segment (cells vd ! c0) then c2' else c0);
                      c2 = (if contains_segment (cells vd ! c0) then c0 else c2');
                      vd4 = fst (annotate_cell vd3 c CC_Outside)
                  in Inr (fst (annotate_cell vd4 c2 CC_Boundary))
                else Inr vd3)"

text \<open>
  The point of the contour that one end of the edge lies on, if the edge is the bisector of
  two segments that share a point, or a secondary edge.
\<close>

definition find_pt_on_contour :: "VD \<Rightarrow> Line list \<Rightarrow> nat \<Rightarrow> nat \<Rightarrow> nat \<Rightarrow> Line \<Rightarrow> Point option" where
  "find_pt_on_contour vd lines e c c2 line =
     (let edge = edges vd ! e;
          line2 = lines ! source_index (cells vd ! c2)
      in if c = cell edge \<and> contains_segment (cells vd ! cell (edges vd ! twin edge)) then
           (if a line = b line2 then Some (a line)
            else if b line = a line2 then Some (b line)
            else None)
         else if is_secondary edge then Some (contour_point (cells vd ! c2) line2)
         else None)"

definition v1_on_contour :: "vertex_type \<Rightarrow> vertex_type \<Rightarrow> Point \<Rightarrow> bool" where
  "v1_on_contour v0 v1 pt =
     (if rounds_to v0 pt then
        (if rounds_to v1 pt then
           squaredNorm (vertex_x v1 - real_of_int (fst pt), vertex_y v1 - real_of_int (snd pt))
             < squaredNorm (vertex_x v0 - real_of_int (fst pt), vertex_y v0 - real_of_int (snd pt))
         else False)
      else True)"

text \<open>
  The first loop, for a bounded edge next to a segment cell: \<open>c\<close> is the segment cell,
  \<open>c2\<close> the cell on the other side.
\<close>

definition annotate_finite_edge :: "VD \<Rightarrow> Line list \<Rightarrow> nat \<Rightarrow> nat \<Rightarrow> nat \<Rightarrow> nat \<Rightarrow> nat \<Rightarrow> VD" where
  "annotate_finite_edge vd lines e w0 w1 c c2 =
     (let edge = edges vd ! e;
          line = lines ! source_index (cells vd ! c);
          pt_on_contour = find_pt_on_contour vd lines e c c2 line;
          on1 = (case pt_on_contour of
                   None \<Rightarrow> False
                 | Some pt \<Rightarrow> v1_on_contour (vertices vd ! w0) (vertices vd ! w1) pt)
      in if on1 then annotate_vertex (annotate_edge vd e EC_PointsToContour) w1 VC_OnContour
         else
           let l0 = cast_double (a line);
               lv = cast_double (psub (b line) (a line));
               side = cross2 (vsub (vertex_point (vertices vd ! w1)) l0) lv;
               vc = (if 0 < side then VC_Outside else VC_Inside);
               vd1 = annotate_vertex vd w1 vc;
               vd2 = annotate_edge vd1 e
                       (if vc = VC_Outside then EC_PointsOutside else EC_PointsInside);
               vd3 = (if pt_on_contour \<noteq> None
                      then annotate_edge (annotate_vertex vd2 w0 VC_OnContour) (twin edge)
                             EC_PointsToContour
                      else vd2);
               side_cc = (if vc = VC_Outside then CC_Outside else CC_Inside);
               vd4 = fst (annotate_cell vd3 c
                            (if pt_on_contour \<noteq> None then CC_Boundary else side_cc))
           in fst (annotate_cell vd4 c2
                     (if pt_on_contour \<noteq> None \<and> contains_segment (cells vd ! c2)
                      then CC_Boundary else side_cc)))"

definition annotate_edge_first :: "VD \<Rightarrow> Line list \<Rightarrow> nat \<Rightarrow> error + VD" where
  "annotate_edge_first vd lines e =
     (let edge = edges vd ! e
      in case vertex1 edge of
           None \<Rightarrow> annotate_infinite_edge vd e
         | Some w1 \<Rightarrow>
             (case vertex0 edge of
                None \<Rightarrow> Inr vd
              | Some w0 \<Rightarrow>
                  let c0 = cell edge;
                      ct = cell (edges vd ! twin edge)
                  in if contains_segment (cells vd ! c0)
                     then Inr (annotate_finite_edge vd lines e w0 w1 c0 ct)
                     else if contains_segment (cells vd ! ct)
                     then Inr (annotate_finite_edge vd lines e w0 w1 ct c0)
                     else Inr vd))"

fun first_loop :: "Line list \<Rightarrow> nat list \<Rightarrow> VD \<Rightarrow> error + VD" where
  "first_loop lines [] vd = Inr vd"
| "first_loop lines (e # es) vd =
     (case annotate_edge_first vd lines e of
        Inl err \<Rightarrow> Inl err
      | Inr vd' \<Rightarrow> first_loop lines es vd')"

text \<open>
  The second loop: one round of expansion over the edges that are still unknown. The
  state is the diagram and the queue of cells.
\<close>

definition expand_edge :: "VD \<Rightarrow> nat list \<Rightarrow> nat \<Rightarrow> error + (VD \<times> nat list)" where
  "expand_edge vd cell_queue e =
     (let edge = edges vd ! e
      in if edge_category edge = EC_Unknown then
           (case vertex0 edge of
              None \<Rightarrow> Inl NullVertex
            | Some w0 \<Rightarrow>
                let vc = vertex_category (vertices vd ! w0)
                in if vc \<noteq> VC_Unknown then
                     (case vertex1 edge of
                        None \<Rightarrow> Inl NullVertex
                      | Some w1 \<Rightarrow>
                          let c = cell edge;
                              c2 = cell (edges vd ! twin edge);
                              vd1 = annotate_vertex vd w1 vc;
                              ec_new = (if vc = VC_Outside then EC_PointsOutside else EC_PointsInside);
                              vd2 = annotate_edge (annotate_edge vd1 e ec_new) (twin edge) ec_new;
                              cc = cell_category (cells vd2 ! c);
                              cc2 = cell_category (cells vd2 ! c2);
                              cc_new = (if vc = VC_Outside then CC_Outside else CC_Inside);
                              vd3 = (if cc \<noteq> cc_new then fst (annotate_cell vd2 c cc_new) else vd2);
                              q1 = (if cc \<noteq> cc_new then cell_queue @ [c] else cell_queue);
                              vd4 = (if cc2 \<noteq> cc_new then fst (annotate_cell vd3 c2 cc_new) else vd3);
                              q2 = (if cc2 \<noteq> cc_new then q1 @ [c2] else q1)
                          in Inr (vd4, q2))
                   else Inr (vd, cell_queue))
         else Inr (vd, cell_queue))"

fun second_loop :: "nat list \<Rightarrow> VD \<Rightarrow> nat list \<Rightarrow> error + (VD \<times> nat list)" where
  "second_loop [] vd cell_queue = Inr (vd, cell_queue)"
| "second_loop (e # es) vd cell_queue =
     (case expand_edge vd cell_queue e of
        Inl err \<Rightarrow> Inl err
      | Inr (vd', q') \<Rightarrow> second_loop es vd' q')"

text \<open>
  The seed fill. \<open>fill_cell\<close> is the walk around one cell taken from the queue,
  \<open>seed_fill\<close> the loop that drains the queue.
\<close>

fun fill_cell ::
  "nat \<Rightarrow> CellCategory \<Rightarrow> EdgeCategory \<Rightarrow> nat \<Rightarrow> nat \<Rightarrow> VD \<Rightarrow> nat list \<Rightarrow> error + (VD \<times> nat list)" where
  "fill_cell first_edge cc ec_new 0 edge vd cell_queue = Inl OutOfFuel"
| "fill_cell first_edge cc ec_new (Suc fuel) edge vd cell_queue =
     (let r =
        (if edge_category (edges vd ! edge) = EC_Unknown then
           let tw = twin (edges vd ! edge);
               vd1 = annotate_edge (annotate_edge vd edge ec_new) tw ec_new;
               c2 = cell (edges vd ! tw);
               cc2 = cell_category (cells vd1 ! c2)
           in if cc2 \<noteq> cc then (fst (annotate_cell vd1 c2 cc), cell_queue @ [c2])
              else (vd1, cell_queue)
         else (vd, cell_queue));
          edge' = edge_next (edges vd ! edge)
      in if edge' \<noteq> first_edge then fill_cell first_edge cc ec_new fuel edge' (fst r) (snd r)
         else Inr r)"

fun seed_fill :: "nat \<Rightarrow> VD \<Rightarrow> nat list \<Rightarrow> error + VD" where
  "seed_fill 0 vd cell_queue = (if cell_queue = [] then Inr vd else Inl OutOfFuel)"
| "seed_fill (Suc fuel) vd cell_queue =
     (if cell_queue = [] then Inr vd
      else
        let c = last cell_queue;
            cc = cell_category (cells vd ! c);
            first_edge = cell_incident_edge (cells vd ! c);
            ec_new = (if cc = CC_Outside then EC_PointsOutside else EC_PointsInside)
        in case fill_cell first_edge cc ec_new (length (edges vd)) first_edge vd (butlast cell_queue) of
             Inl err \<Rightarrow> Inl err
           | Inr (vd', q') \<Rightarrow> seed_fill fuel vd' q')"

definition annotate_inside_outside :: "VD \<Rightarrow> Line list \<Rightarrow> error + VD" where
  "annotate_inside_outside vd lines =
     (let n = length (edges vd)
      in case first_loop lines [0 ..< n] (reset_inside_outside_annotations vd) of
           Inl err \<Rightarrow> Inl err
         | Inr vd1 \<Rightarrow>
             (case second_loop [0 ..< n] vd1 [] of
                Inl err \<Rightarrow> Inl err
              | Inr (vd2, cell_queue) \<Rightarrow> seed_fill (Suc (2 * n)) vd2 cell_queue))"

text \<open>
  The counts that \<open>verify_inside_outside_annotations\<close> takes around a cell: the half-edges
  of the cell, and of them those with a given category and those whose head has a given
  category, an absent head counting as outside.
\<close>

definition cell_edges :: "VD \<Rightarrow> nat \<Rightarrow> nat list" where
  "cell_edges vd c =
     (let first_edge = cell_incident_edge (cells vd ! c)
      in first_edge # (case next_edges vd first_edge (edge_next (edges vd ! first_edge))
                              (length (edges vd)) of
                         Some es \<Rightarrow> es | None \<Rightarrow> []))"

definition head_category :: "VD \<Rightarrow> nat \<Rightarrow> VertexCategory" where
  "head_category vd e =
     (case vertex1 (edges vd ! e) of
        None \<Rightarrow> VC_Outside
      | Some w1 \<Rightarrow> vertex_category (vertices vd ! w1))"

definition num_edges_with :: "VD \<Rightarrow> nat \<Rightarrow> EdgeCategory \<Rightarrow> nat" where
  "num_edges_with vd c ec = length (filter (\<lambda>e. edge_category (edges vd ! e) = ec) (cell_edges vd c))"

definition num_vertices_with :: "VD \<Rightarrow> nat \<Rightarrow> VertexCategory \<Rightarrow> nat" where
  "num_vertices_with vd c vc = length (filter (\<lambda>e. head_category vd e = vc) (cell_edges vd c))"

definition boundary_counts :: "nat \<Rightarrow> VD \<Rightarrow> nat \<times> nat \<times> nat \<times> nat \<times> nat \<times> nat" where
  "boundary_counts c vd =
     (num_edges_with vd c EC_PointsToContour, num_vertices_with vd c VC_OnContour,
      num_vertices_with vd c VC_Inside, num_vertices_with vd c VC_Outside,
      num_edges_with vd c EC_PointsInside, num_edges_with vd c EC_PointsOutside)"

text \<open>The categories of all vertices, edges and cells of a diagram.\<close>

definition categories :: "VD \<Rightarrow> VertexCategory list \<times> EdgeCategory list \<times> CellCategory list" where
  "categories vd =
     (map vertex_category (vertices vd), map edge_category (edges vd), map cell_category (cells vd))"


section \<open>Intersections of the Voronoi edges with the offset curve\<close>

text \<open>
  One entry per half-edge. The source stores a \<open>Vec2d\<close> whose \<open>x\<close> is NaN when there is
  no intersection point: \<open>(NaN, 0)\<close> is the initial, unclassified state, \<open>(NaN, 1)\<close> means
  visited without intersection. The NaN is \<open>None\<close> here.
  Modelled from the spec: \<open>edge_offset_has_intersection\<close> is declared outside the file;
  an entry has an intersection when its \<open>x\<close> is not NaN.
\<close>

type_synonym EdgePoint = "real option \<times> real"

definition edge_offset_has_intersection :: "EdgePoint \<Rightarrow> bool" where
  "edge_offset_has_intersection p = (fst p \<noteq> None)"

definition store_point :: "Vec2d \<Rightarrow> EdgePoint" where
  "store_point p = (Some (fst p), snd p)"

definition set_y :: "EdgePoint list \<Rightarrow> nat \<Rightarrow> real \<Rightarrow> EdgePoint list" where
  "set_y out i v = out[i := (fst (out ! i), v)]"

text \<open>\<open>std::numeric_limits<double>::max()\<close>, the distance of an absent vertex.\<close>

definition DBL_MAX :: real where
  "DBL_MAX = 2 ^ 1024 - 2 ^ 971"

definition endpoint_distance :: "real list \<Rightarrow> nat option \<Rightarrow> real" where
  "endpoint_distance vertex_distances v =
     (case v of None \<Rightarrow> DBL_MAX | Some i \<Rightarrow> vertex_distances ! i)"

text \<open>
  The distances \<open>d0\<close>, \<open>d1\<close> of the end points of an edge after the sign flip for an
  inward offset, and their minimum and maximum as the source computes them.
\<close>

definition edge_d0 :: "VD \<Rightarrow> real list \<Rightarrow> bool \<Rightarrow> nat \<Rightarrow> real" where
  "edge_d0 vd vertex_distances outside e =
     (let d = endpoint_distance vertex_distances (vertex0 (edges vd ! e))
      in if outside then d else - d)"

definition edge_d1 :: "VD \<Rightarrow> real list \<Rightarrow> bool \<Rightarrow> nat \<Rightarrow> real" where
  "edge_d1 vd vertex_distances outside e =
     (let d = endpoint_distance vertex_distances (vertex1 (edges vd ! e))
      in if outside then d else - d)"

definition edge_dmin :: "VD \<Rightarrow> real list \<Rightarrow> bool \<Rightarrow> nat \<Rightarrow> real" where
  "edge_dmin vd vertex_distances outside e =
     (if edge_d0 vd vertex_distances outside e < edge_d1 vd vertex_distances outside e
      then edge_d0 vd vertex_distances outside e else edge_d1 vd vertex_distances outside e)"

definition edge_dmax :: "VD \<Rightarrow> real list \<Rightarrow> bool \<Rightarrow> nat \<Rightarrow> real" where
  "edge_dmax vd vertex_distances outside e =
     (if edge_d0 vd vertex_distances outside e < edge_d1 vd vertex_distances outside e
      then edge_d1 vd vertex_distances outside e else edge_d0 vd vertex_distances outside e)"

text \<open>The two tests after which the loop continues with the next edge.\<close>

definition edge_skipped :: "VD \<Rightarrow> real list \<Rightarrow> bool \<Rightarrow> real \<Rightarrow> nat \<Rightarrow> bool" where
  "edge_skipped vd vertex_distances outside offset_distance e =
     (endpoint_distance vertex_distances (vertex0 (edges vd ! e))
        = endpoint_distance vertex_distances (vertex1 (edges vd ! e))
      \<or> edge_dmax vd vertex_distances outside e \<le> offset_distance)"

text \<open>The unbounded edge, \<open>v1 == nullptr\<close>.\<close>

definition infinite_edge ::
  "VD \<Rightarrow> cell_type \<Rightarrow> cell_type \<Rightarrow> Line \<Rightarrow> Line \<Rightarrow> nat option \<Rightarrow> real \<Rightarrow> real \<Rightarrow> nat \<Rightarrow> nat
     \<Rightarrow> EdgePoint list \<Rightarrow> error + EdgePoint list" where
  "infinite_edge vd c c2 line0 line1 v0 offset_distance dmin edge_idx edge_idx2 out =
     (if dmin \<le> offset_distance then
        (if contains_point c \<and> contains_point c2 then
           (case v0 of
              None \<Rightarrow> Inl NullVertex
            | Some w0 \<Rightarrow>
                let pt0 = contour_point c line0;
                    pt1 = contour_point c2 line1;
                    dir = (real_of_int (snd pt0 - snd pt1), real_of_int (fst pt1 - fst pt0));
                    pt = vertex_point (vertices vd ! w0);
                    t = first_circle_segment_intersection_parameter (cast_double pt0) offset_distance pt dir
                in Inr (set_y (out[edge_idx := store_point (vadd pt (vscale t dir))]) edge_idx2 1))
         else
           let ipt = (if contains_segment c then contour_point c2 line1 else contour_point c line0);
               line = (if contains_segment c then line0 else line1);
               n = normalized (real_of_int (snd (b line) - snd (a line)),
                               real_of_int (fst (a line) - fst (b line)))
           in Inr (set_y (out[edge_idx := store_point (vadd (cast_double ipt) (vscale offset_distance n))])
                     edge_idx2 1))
      else Inr (set_y out edge_idx2 1))"

text \<open>
  The bounded edge along which the distance is linear: the bisector of two segments, or a
  secondary edge. The result is the array and the flag \<open>done\<close>.
\<close>

definition linear_edge ::
  "VD \<Rightarrow> bool \<Rightarrow> nat option \<Rightarrow> nat \<Rightarrow> real \<Rightarrow> real \<Rightarrow> real \<Rightarrow> real \<Rightarrow> real \<Rightarrow> nat \<Rightarrow> nat
     \<Rightarrow> EdgePoint list \<Rightarrow> error + (EdgePoint list \<times> bool)" where
  "linear_edge vd bisector v0 w1 offset_distance d0 d1 dmin dmax edge_idx edge_idx2 out =
     (if \<not> bisector \<or> (dmin \<noteq> dmax \<and> dmin \<le> offset_distance) then
        (case v0 of
           None \<Rightarrow> Inl NullVertex
         | Some w0 \<Rightarrow>
             let t = clamp 0 1 ((offset_distance - dmin) / (dmax - dmin));
                 p0 = vertex_point (vertices vd ! w0);
                 p1 = vertex_point (vertices vd ! w1)
             in if d1 < d0
                then Inr (set_y (out[edge_idx2 := store_point (lerp p1 p0 t)]) edge_idx 1, True)
                else Inr (set_y (out[edge_idx := store_point (lerp p0 p1 t)]) edge_idx2 1, True))
      else Inr (out, False))"

text \<open>
  The edge between two points, or between a point and a segment: the distance along the
  edge may have a minimum inside the edge. \<open>refine_dmin\<close> is the block that decides
  whether an intersection is looked for: it returns the flags \<open>has_intersection\<close> and
  \<open>possibly_two_points\<close> and the value of \<open>dmin\<close> after the block.
\<close>

definition projected_dmin ::
  "bool \<Rightarrow> Line \<Rightarrow> Vec2d \<Rightarrow> Vec2d \<Rightarrow> Vec2d \<Rightarrow> real \<Rightarrow> real" where
  "projected_dmin point_vs_segment line p0 p1 px dmin =
     (if point_vs_segment then
        let pt_line = cast_double (a line);
            v_line = cast_double (psub (b line) (a line));
            t0 = dot (vsub p0 pt_line) v_line;
            t1 = dot (vsub p1 pt_line) v_line;
            tx = dot (vsub px pt_line) v_line
        in if (t0 \<le> tx \<and> tx \<le> t1) \<or> (t1 \<le> tx \<and> tx \<le> t0)
           then squaredNorm (vsub (vadd pt_line (vscale (tx / squaredNorm v_line) v_line)) px) * 0.25
           else dmin
      else
        let v = vsub p1 p0;
            l2 = squaredNorm v;
            t = dot v (vsub px p0)
        in if 0 \<le> t \<and> t \<le> l2
           then squaredNorm (vsub (vadd p0 (vscale (t / l2) v)) px)
           else dmin)"

definition refine_dmin ::
  "bool \<Rightarrow> Line \<Rightarrow> Vec2d \<Rightarrow> Vec2d \<Rightarrow> Vec2d \<Rightarrow> real \<Rightarrow> real \<Rightarrow> bool \<times> bool \<times> real" where
  "refine_dmin point_vs_segment line p0 p1 px offset_distance2 dmin =
     (if dmin \<le> offset_distance2 then (True, False, dmin)
      else
        let dmin_new = projected_dmin point_vs_segment line p0 p1 px dmin
        in if dmin_new < dmin then (dmin_new \<le> offset_distance2, dmin_new \<le> offset_distance2, dmin_new)
           else (False, False, dmin))"

text \<open>Of two points found, those that fall on the edge (lines 829 to 859).\<close>

definition select_intersections ::
  "bool \<Rightarrow> Vec2d \<Rightarrow> Vec2d \<Rightarrow> Intersections \<Rightarrow> Intersections" where
  "select_intersections possibly_two_points p0 p1 isec =
     (if possibly_two_points then
        let v = vsub p1 p0;
            l2 = squaredNorm v;
            s0 = dot v (vsub (pts0 isec) p0);
            s1 = dot v (vsub (pts1 isec) p0);
            t0 = (if s1 < s0 then s1 else s0);
            t1 = (if s1 < s0 then s0 else s1);
            q0 = (if s1 < s0 then pts1 isec else pts0 isec);
            q1 = (if s1 < s0 then pts0 isec else pts1 isec)
        in if t0 < 0 \<or> l2 < t0 then
             (if t1 < 0 \<or> l2 < t1 then \<lparr>count = 0, pts0 = q0, pts1 = q1\<rparr>
              else \<lparr>count = count isec - 1, pts0 = q1, pts1 = q1\<rparr>)
           else if t1 < 0 \<or> l2 < t1 then \<lparr>count = count isec - 1, pts0 = q0, pts1 = q1\<rparr>
           else \<lparr>count = count isec, pts0 = q0, pts1 = q1\<rparr>
      else
        let e0 = max (squaredNorm (vsub (pts0 isec) p0)) (squaredNorm (vsub (pts0 isec) p1));
            e1 = max (squaredNorm (vsub (pts1 isec) p0)) (squaredNorm (vsub (pts1 isec) p1))
        in \<lparr>count = count isec - 1,
            pts0 = (if e1 < e0 then pts1 isec else pts0 isec),
            pts1 = pts1 isec\<rparr>)"

definition nonmonotone_edge ::
  "VD \<Rightarrow> cell_type \<Rightarrow> cell_type \<Rightarrow> Line \<Rightarrow> Line \<Rightarrow> nat option \<Rightarrow> nat \<Rightarrow> real \<Rightarrow> real \<Rightarrow> real
     \<Rightarrow> real \<Rightarrow> real \<Rightarrow> nat \<Rightarrow> nat \<Rightarrow> EdgePoint list \<Rightarrow> error + (EdgePoint list \<times> bool)" where
  "nonmonotone_edge vd c c2 line0 line1 v0 w1 offset_distance offset_distance2 d0 d1 dmin
       edge_idx edge_idx2 out =
     (case v0 of
        None \<Rightarrow> Inl NullVertex
      | Some w0 \<Rightarrow>
          let point_vs_segment = (contains_point c \<noteq> contains_point c2);
              pt0 = (if contains_point c then contour_point c line0 else contour_point c2 line1);
              line = (if contains_segment c then line0 else line1);
              p0 = vertex_point (vertices vd ! w0);
              p1 = vertex_point (vertices vd ! w1);
              px = cast_double pt0;
              (has_intersection, possibly_two_points, dmin') =
                 refine_dmin point_vs_segment line p0 p1 px offset_distance2 dmin
          in if has_intersection then
               let found =
                     (if point_vs_segment
                      then line_point_equal_distance_points line pt0 offset_distance
                      else point_point_equal_distance_points pt0 (contour_point c2 line1) offset_distance)
               in if count found = 2 then
                    let sel = select_intersections possibly_two_points p0 p1 found
                    in if count sel = 2
                       then Inr (out[edge_idx := store_point (pts1 sel),
                                     edge_idx2 := store_point (pts0 sel)], True)
                       else if count sel = 1 then
                         (if d1 < d0
                          then Inr (set_y (out[edge_idx2 := store_point (pts0 sel)]) edge_idx 1, True)
                          else Inr (set_y (out[edge_idx := store_point (pts0 sel)]) edge_idx2 1, True))
                       else Inr (out, False)
                  else Inr (out, False)
             else Inr (out, False))"

text \<open>The body of the loop over the edges, for the edge with index \<open>edge_idx\<close>.\<close>

definition process_edge ::
  "VD \<Rightarrow> Line list \<Rightarrow> real list \<Rightarrow> bool \<Rightarrow> real \<Rightarrow> real \<Rightarrow> nat \<Rightarrow> EdgePoint list
     \<Rightarrow> error + EdgePoint list" where
  "process_edge vd lines vertex_distances outside offset_distance offset_distance2 edge_idx out =
     (if edge_offset_has_intersection (out ! edge_idx) \<or> snd (out ! edge_idx) \<noteq> 0 then Inr out
      else if edge_skipped vd vertex_distances outside offset_distance edge_idx then Inr out
      else
        let edge = edges vd ! edge_idx;
            v0 = vertex0 edge;
            v1 = vertex1 edge;
            d0 = edge_d0 vd vertex_distances outside edge_idx;
            d1 = edge_d1 vd vertex_distances outside edge_idx;
            dmin = edge_dmin vd vertex_distances outside edge_idx;
            dmax = edge_dmax vd vertex_distances outside edge_idx;
            c = cells vd ! cell edge;
            c2 = cells vd ! cell (edges vd ! twin edge);
            line0 = lines ! source_index c;
            line1 = lines ! source_index c2;
            edge_idx2 = twin edge
        in case v1 of
             None \<Rightarrow> infinite_edge vd c c2 line0 line1 v0 offset_distance dmin edge_idx edge_idx2 out
           | Some w1 \<Rightarrow>
               let bisector = (contains_segment c \<and> contains_segment c2);
                   r = (if bisector \<or> is_secondary edge
                        then linear_edge vd bisector v0 w1 offset_distance d0 d1 dmin dmax
                               edge_idx edge_idx2 out
                        else nonmonotone_edge vd c c2 line0 line1 v0 w1 offset_distance
                               offset_distance2 d0 d1 dmin edge_idx edge_idx2 out)
               in case r of
                    Inl e \<Rightarrow> Inl e
                  | Inr (out', done) \<Rightarrow>
                      if done then Inr out' else Inr (set_y (set_y out' edge_idx2 1) edge_idx 1))"

fun edge_loop ::
  "VD \<Rightarrow> Line list \<Rightarrow> real list \<Rightarrow> bool \<Rightarrow> real \<Rightarrow> real \<Rightarrow> nat list \<Rightarrow> EdgePoint list
     \<Rightarrow> error + EdgePoint list" where
  "edge_loop vd lines vertex_distances outside offset_distance offset_distance2 [] out = Inr out"
| "edge_loop vd lines vertex_distances outside offset_distance offset_distance2 (i # is) out =
     (case process_edge vd lines vertex_distances outside offset_distance offset_distance2 i out of
        Inl e \<Rightarrow> Inl e
      | Inr out' \<Rightarrow> edge_loop vd lines vertex_distances outside offset_distance offset_distance2 is out')"

definition edge_offset_contour_intersections ::
  "VD \<Rightarrow> Line list \<Rightarrow> real list \<Rightarrow> real \<Rightarrow> error + EdgePoint list" where
  "edge_offset_contour_intersections vd lines vertex_distances offset_distance =
     (let outside = (0 < offset_distance);
          offset_distance2 = offset_distance * offset_distance;
          offset_distance' = (if \<not> outside then - offset_distance else offset_distance)
      in edge_loop vd lines vertex_distances outside offset_distance' offset_distance2
           [0 ..< length (edges vd)] (replicate (length (edges vd)) (None, 0)))"

text \<open>
  What the loop relies on in the diagram: the indices are in range and \<open>twin\<close> pairs the
  half-edges, the twin running between the same vertices in the other direction.
\<close>

definition twins_paired :: "VD \<Rightarrow> bool" where
  "twins_paired vd =
     (\<forall>e < length (edges vd).
        twin (edges vd ! e) < length (edges vd)
      \<and> twin (edges vd ! e) \<noteq> e
      \<and> twin (edges vd ! (twin (edges vd ! e))) = e
      \<and> vertex0 (edges vd ! (twin (edges vd ! e))) = vertex1 (edges vd ! e)
      \<and> vertex1 (edges vd ! (twin (edges vd ! e))) = vertex0 (edges vd ! e))"

section \<open>Tracing the offset contours\<close>

type_synonym Polygon = "Point list"

text \<open>
  An entry with an intersection read as a point. It is only read where
  \<open>edge_offset_has_intersection\<close> has been tested.
\<close>

definition point_of :: "EdgePoint \<Rightarrow> Vec2d" where
  "point_of p = (case fst p of Some x \<Rightarrow> (x, snd p) | None \<Rightarrow> (0, snd p))"

text \<open>
  \<open>next_offset_edge\<close>: follow \<open>next\<close> around the cell of \<open>start_edge\<close> until an edge is found
  whose twin has an intersection, and return that twin; a null pointer when the walk comes
  back to \<open>start_edge\<close>. The walk is cut off after as many steps as there are edges.
\<close>

fun next_offset_edge_loop :: "VD \<Rightarrow> EdgePoint list \<Rightarrow> nat \<Rightarrow> nat \<Rightarrow> nat \<Rightarrow> error + nat option" where
  "next_offset_edge_loop vd edge_points start_edge edge 0 = Inl OutOfFuel"
| "next_offset_edge_loop vd edge_points start_edge edge (Suc fuel) =
     (if edge = start_edge then Inr None
      else if edge_offset_has_intersection (edge_points ! twin (edges vd ! edge))
           then Inr (Some (twin (edges vd ! edge)))
           else next_offset_edge_loop vd edge_points start_edge (edge_next (edges vd ! edge)) fuel)"

definition next_offset_edge :: "VD \<Rightarrow> EdgePoint list \<Rightarrow> nat \<Rightarrow> error + nat option" where
  "next_offset_edge vd edge_points start_edge =
     next_offset_edge_loop vd edge_points start_edge (edge_next (edges vd ! start_edge))
       (length (edges vd))"

text \<open>The inner vertices of the arc from \<open>p1\<close> to \<open>p2\<close> around the site of a point cell.\<close>

definition arc_points :: "Vec2d \<Rightarrow> Vec2d \<Rightarrow> Vec2d \<Rightarrow> real \<Rightarrow> real \<Rightarrow> Polygon" where
  "arc_points center p1 p2 angle_step cos_threshold =
     (let v1 = vsub p1 center;
          v2 = vsub p2 center;
          ccw = (0 < cross2 v1 v2);
          cos_a = dot v1 v2;
          nrm = norm2 v1 * norm2 v2
      in if cos_a < cos_threshold * nrm then
           let angle = arccos (max (- 1) (min 1 (cos_a / nrm)));
               n_steps = nat \<lceil>angle / angle_step\<rceil>;
               astep = (if \<not> ccw then - (angle / real n_steps) else angle / real n_steps)
           in map (\<lambda>i. let ang = real i * astep;
                            p = vadd center (cos ang * fst v1 - sin ang * snd v1,
                                             sin ang * fst v1 + cos ang * snd v1)
                        in (trunc_coord (fst p), trunc_coord (snd p)))
                  [1 ..< n_steps]
         else [])"

text \<open>
  The loop that traces one polygon from \<open>start_edge\<close>. Where \<open>next_offset_edge\<close> returns a null
  pointer the source asserts \<open>next_edge\<close> in a debug build and uses the null pointer
  otherwise; both end the run, with \<open>NullEdge\<close>.
\<close>

fun trace_loop ::
  "VD \<Rightarrow> Line list \<Rightarrow> real \<Rightarrow> real \<Rightarrow> nat \<Rightarrow> nat \<Rightarrow> nat \<Rightarrow> Vec2d \<Rightarrow> Polygon \<Rightarrow> EdgePoint list
     \<Rightarrow> error + (Polygon \<times> EdgePoint list)" where
  "trace_loop vd lines angle_step cos_threshold start_edge 0 edge last_pt poly edge_points =
     Inl OutOfFuel"
| "trace_loop vd lines angle_step cos_threshold start_edge (Suc fuel) edge last_pt poly edge_points =
     (case next_offset_edge vd edge_points edge of
        Inl e \<Rightarrow> Inl e
      | Inr None \<Rightarrow> Inl NullEdge
      | Inr (Some next_edge) \<Rightarrow>
          let c = edge_cell vd edge;
              p1 = last_pt;
              p2 = point_of (edge_points ! next_edge);
              edge_points' = edge_points[next_edge := (None, snd (edge_points ! next_edge))];
              poly1 = (if contains_point c
                       then poly @ arc_points (cast_double (contour_point c (lines ! source_index c)))
                                     p1 p2 angle_step cos_threshold
                       else poly);
              pt_last = (trunc_coord (fst p2), trunc_coord (snd p2));
              poly2 = (if poly1 = [] \<or> last poly1 \<noteq> pt_last then poly1 @ [pt_last] else poly1)
          in if next_edge = start_edge then Inr (poly2, edge_points')
             else trace_loop vd lines angle_step cos_threshold start_edge fuel next_edge p2 poly2
                    edge_points')"

fun seed_loop ::
  "VD \<Rightarrow> Line list \<Rightarrow> real \<Rightarrow> real \<Rightarrow> nat list \<Rightarrow> EdgePoint list \<Rightarrow> Polygon list
     \<Rightarrow> error + Polygon list" where
  "seed_loop vd lines angle_step cos_threshold [] edge_points out = Inr out"
| "seed_loop vd lines angle_step cos_threshold (seed_edge_idx # seeds) edge_points out =
     (if edge_offset_has_intersection (edge_points ! seed_edge_idx) then
        (case trace_loop vd lines angle_step cos_threshold seed_edge_idx (Suc (length (edges vd)))
                seed_edge_idx (point_of (edge_points ! seed_edge_idx)) [] edge_points of
           Inl e \<Rightarrow> Inl e
         | Inr (poly, edge_points') \<Rightarrow>
             seed_loop vd lines angle_step cos_threshold seeds edge_points' (out @ [poly]))
      else seed_loop vd lines angle_step cos_threshold seeds edge_points out)"

definition offset :: "VD \<Rightarrow> Line list \<Rightarrow> real list \<Rightarrow> real \<Rightarrow> real \<Rightarrow> error + Polygon list" where
  "offset vd lines signed_vertex_distances' offset_distance discretization_error =
     (case edge_offset_contour_intersections vd lines signed_vertex_distances' offset_distance of
        Inl e \<Rightarrow> Inl e
      | Inr edge_points \<Rightarrow>
          let angle_step = 2 * arccos ((offset_distance - discretization_error) / offset_distance);
              cos_threshold = cos angle_step
          in seed_loop vd lines angle_step cos_threshold [0 ..< length (edges vd)] edge_points [])"

text \<open>
  The half-edges that the walk of \<open>next_offset_edge\<close> looks at: those after \<open>start_edge\<close>
  around its cell.
\<close>

definition cell_walk :: "VD \<Rightarrow> nat \<Rightarrow> nat list option" where
  "cell_walk vd start_edge =
     next_edges vd start_edge (edge_next (edges vd ! start_edge)) (length (edges vd))"

section \<open>A worked diagram\<close>

text \<open>
  The Voronoi diagram of the triangle \<open>A = (0, 0)\<close>, \<open>B = (4, 0)\<close>, \<open>C = (0, 3)\<close>, oriented
  counter-clockwise. Inside, the three angle bisectors meet at the incentre \<open>I = (1, 1)\<close>;
  outside, two secondary unbounded edges leave each corner, perpendicular to the two
  sides that meet there. Cells 0 to 2 are the cells of the sides \<open>AB\<close>, \<open>BC\<close>, \<open>CA\<close>,
  cells 3 to 5 those of the corners \<open>A\<close>, \<open>B\<close>, \<open>C\<close>. Vertices 0 to 3 are \<open>A\<close>, \<open>B\<close>, \<open>C\<close>,
  \<open>I\<close>. Half-edges come in twin pairs at indices \<open>2k\<close>, \<open>2k + 1\<close>.
\<close>

definition triangle_lines :: "Line list" where
  "triangle_lines =
     [\<lparr>a = (0, 0), b = (4, 0)\<rparr>, \<lparr>a = (4, 0), b = (0, 3)\<rparr>, \<lparr>a = (0, 3), b = (0, 0)\<rparr>]"

definition mk_edge :: "nat \<Rightarrow> nat option \<Rightarrow> nat option \<Rightarrow> nat \<Rightarrow> nat \<Rightarrow> nat \<Rightarrow> bool \<Rightarrow> edge_type" where
  "mk_edge c v0 v1 t n r s =
     \<lparr>cell = c, vertex0 = v0, vertex1 = v1, twin = t, edge_next = n, rot_next = r, is_secondary = s,
      edge_category = EC_Unknown\<rparr>"

definition mk_cell :: "nat \<Rightarrow> SourceCategory \<Rightarrow> nat \<Rightarrow> cell_type" where
  "mk_cell i sc e =
     \<lparr>source_index = i, source_category = sc, cell_incident_edge = e, cell_category = CC_Unknown\<rparr>"

definition mk_vertex :: "real \<Rightarrow> real \<Rightarrow> nat \<Rightarrow> VertexCategory \<Rightarrow> vertex_type" where
  "mk_vertex x y e vc = \<lparr>vertex_x = x, vertex_y = y, vertex_incident_edge = e, vertex_category = vc\<rparr>"

definition triangle_vd :: VD where
  "triangle_vd =
     \<lparr>vertices =
        [mk_vertex 0 0 0 VC_OnContour, mk_vertex 4 0 2 VC_OnContour,
         mk_vertex 0 3 4 VC_OnContour, mk_vertex 1 1 1 VC_Inside],
      edges =
        [mk_edge 2 (Some 0) (Some 3) 1 5 8 False,
         mk_edge 0 (Some 3) (Some 0) 0 6 3 False,
         mk_edge 0 (Some 1) (Some 3) 3 1 10 False,
         mk_edge 1 (Some 3) (Some 1) 2 12 5 False,
         mk_edge 1 (Some 2) (Some 3) 5 3 14 False,
         mk_edge 2 (Some 3) (Some 2) 4 16 1 False,
         mk_edge 0 (Some 0) None 7 11 0 True,
         mk_edge 3 None (Some 0) 6 8 9 True,
         mk_edge 3 (Some 0) None 9 7 6 True,
         mk_edge 2 None (Some 0) 8 0 17 True,
         mk_edge 4 (Some 1) None 11 13 12 True,
         mk_edge 0 None (Some 1) 10 2 7 True,
         mk_edge 1 (Some 1) None 13 15 2 True,
         mk_edge 4 None (Some 1) 12 10 11 True,
         mk_edge 5 (Some 2) None 15 17 16 True,
         mk_edge 1 None (Some 2) 14 4 13 True,
         mk_edge 2 (Some 2) None 17 9 4 True,
         mk_edge 5 None (Some 2) 16 14 15 True],
      cells =
        [mk_cell 0 SOURCE_CATEGORY_SEGMENT 1,
         mk_cell 1 SOURCE_CATEGORY_SEGMENT 3,
         mk_cell 2 SOURCE_CATEGORY_SEGMENT 0,
         mk_cell 0 SOURCE_CATEGORY_SEGMENT_START_POINT 7,
         mk_cell 1 SOURCE_CATEGORY_SEGMENT_START_POINT 10,
         mk_cell 2 SOURCE_CATEGORY_SEGMENT_START_POINT 14]\<rparr>"

text \<open>
  The same triangle translated by \<open>(-10, -10)\<close>: \<open>A = (-10, -10)\<close>, \<open>B = (-6, -10)\<close>,
  \<open>C = (-10, -7)\<close>, incentre \<open>I = (-9, -9)\<close>. The half-edges and cells are those of
  \<open>triangle_vd\<close>; the vertices are not annotated.
\<close>

definition low_triangle_lines :: "Line list" where
  "low_triangle_lines =
     [\<lparr>a = (- 10, - 10), b = (- 6, - 10)\<rparr>, \<lparr>a = (- 6, - 10), b = (- 10, - 7)\<rparr>,
      \<lparr>a = (- 10, - 7), b = (- 10, - 10)\<rparr>]"

definition low_triangle_vd :: VD where
  "low_triangle_vd =
     triangle_vd\<lparr>vertices :=
        [mk_vertex (- 10) (- 10) 0 VC_Unknown, mk_vertex (- 6) (- 10) 2 VC_Unknown,
         mk_vertex (- 10) (- 7) 4 VC_Unknown, mk_vertex (- 9) (- 9) 1 VC_Unknown]\<rparr>"

text \<open>
  A fragment of a diagram: the edge between the cells of two point sites \<open>(0, 12)\<close> and
  \<open>(0, -12)\<close>, the start points of two segments leading away from the edge. The edge lies
  on the bisector of the sites, the \<open>x\<close> axis, between the vertices \<open>(x0, 0)\<close> and \<open>(9, 0)\<close>.
\<close>

definition tips_lines :: "Line list" where
  "tips_lines = [\<lparr>a = (0, 12), b = (0, 40)\<rparr>, \<lparr>a = (0, - 12), b = (0, - 40)\<rparr>]"

definition tips_vd :: "real \<Rightarrow> VD" where
  "tips_vd x0 =
     \<lparr>vertices = [mk_vertex x0 0 0 VC_Outside, mk_vertex 9 0 1 VC_Outside],
      edges = [mk_edge 0 (Some 0) (Some 1) 1 0 0 False, mk_edge 1 (Some 1) (Some 0) 0 1 1 False],
      cells =
        [mk_cell 0 SOURCE_CATEGORY_SEGMENT_START_POINT 0,
         mk_cell 1 SOURCE_CATEGORY_SEGMENT_START_POINT 1]\<rparr>"

text \<open>The intersections on the triangle for the inward offset by one half.\<close>

definition triangle_inward_half :: "EdgePoint list" where
  "triangle_inward_half =
     [(Some (1 / 2), 1 / 2), (None, 1), (Some (5 / 2), 1 / 2), (None, 1), (Some (1 / 2), 2), (None, 1),
      (None, 0), (None, 0), (None, 0), (None, 0), (None, 0), (None, 0),
      (None, 0), (None, 0), (None, 0), (None, 0), (None, 0), (None, 0)]"

section \<open>Invariants of the loop over the edges\<close>

text \<open>
  \<open>frame\<close>: only the entries of an edge and of its twin change. \<open>skipped_clear\<close>: an edge
  that the loop skips has no point. \<open>pair_ok\<close> and \<open>twins_classified\<close>: an edge with a
  point has a twin that is not in the initial state.
\<close>

definition frame :: "nat \<Rightarrow> nat \<Rightarrow> EdgePoint list \<Rightarrow> EdgePoint list \<Rightarrow> bool" where
  "frame i j out out' = (length out' = length out \<and> (\<forall>e. e \<noteq> i \<and> e \<noteq> j \<longrightarrow> out' ! e = out ! e))"

definition skipped_clear :: "VD \<Rightarrow> real list \<Rightarrow> bool \<Rightarrow> real \<Rightarrow> EdgePoint list \<Rightarrow> bool" where
  "skipped_clear vd ds outside D out =
     (\<forall>e < length (edges vd). edge_skipped vd ds outside D e \<longrightarrow> fst (out ! e) = None)"

definition pair_ok :: "nat \<Rightarrow> nat \<Rightarrow> EdgePoint list \<Rightarrow> bool" where
  "pair_ok i j out =
     ((edge_offset_has_intersection (out ! i) \<longrightarrow> out ! j \<noteq> (None, 0))
    \<and> (edge_offset_has_intersection (out ! j) \<longrightarrow> out ! i \<noteq> (None, 0)))"

definition twins_classified :: "VD \<Rightarrow> EdgePoint list \<Rightarrow> bool" where
  "twins_classified vd out =
     (\<forall>e < length (edges vd).
        edge_offset_has_intersection (out ! e) \<longrightarrow> out ! twin (edges vd ! e) \<noteq> (None, 0))"

section \<open>Proofs\<close>

subsection \<open>The line--point kernel in exact arithmetic\<close>


lemma ray_point_distance_cross:
  assumes "squaredNorm dir \<noteq> 0"
  shows "ray_point_distance origin dir pt = \<bar>cross2 (vsub pt origin) dir\<bar> / sqrt (squaredNorm dir)"
proof -
  obtain dx dy where dir: "dir = (dx, dy)" by (cases dir)
  define wx where "wx = fst pt - fst origin"
  define wy where "wy = snd pt - snd origin"
  define l2 where "l2 = dx * dx + dy * dy"
  define cr where "cr = wx * dy - wy * dx"
  have l2: "l2 \<noteq> 0" using assms by (simp add: dir squaredNorm_def l2_def)
  have l2pos: "0 < l2" using l2 unfolding l2_def
    by (metis less_eq_real_def sum_squares_ge_zero)
  have A: "fst origin + (wx * dx + wy * dy) / l2 * dx - fst pt = - dy * cr / l2"
    using l2 by (simp add: field_simps wx_def wy_def cr_def l2_def)
  have B: "snd origin + (wx * dx + wy * dy) / l2 * dy - snd pt = dx * cr / l2"
    using l2 by (simp add: field_simps wx_def wy_def cr_def l2_def)
  have "squaredNorm (vsub (foot_pt origin dir pt) pt) = (- dy * cr / l2) * (- dy * cr / l2) + (dx * cr / l2) * (dx * cr / l2)"
    using l2 A B
    by (simp add: foot_pt_def Let_def dir squaredNorm_def vsub_def vadd_def vscale_def dot_def
        flip: wx_def wy_def l2_def)
  also have "\<dots> = cr * cr * (dx * dx + dy * dy) / (l2 * l2)"
    using l2 by (simp add: field_simps)
  also have "\<dots> = cr * cr * l2 / (l2 * l2)"
    by (simp add: l2_def)
  also have "\<dots> = cr\<^sup>2 / l2" using l2 by (simp add: power2_eq_square)
  finally have "squaredNorm (vsub (foot_pt origin dir pt) pt) = cr\<^sup>2 / l2" .
  then have "ray_point_distance origin dir pt = \<bar>cr\<bar> / sqrt l2"
    by (simp add: ray_point_distance_def norm2_def real_sqrt_divide)
  then show ?thesis
    by (simp add: cross2_def vsub_def dir squaredNorm_def cr_def wx_def wy_def l2_def)
qed


lemma lp_c0_distance:
  assumes "a line \<noteq> b line"
  shows "ray_point_distance (cast_double (a line)) (cast_double (psub (b line) (a line))) (cast_double ipt)
           = \<bar>lp_c0 line ipt\<bar> / sqrt (squaredNorm (cast_double (psub (b line) (a line))))"
proof -
  have "fst (cast_double (psub (b line) (a line))) \<noteq> 0 \<or> snd (cast_double (psub (b line) (a line))) \<noteq> 0"
    using assms by (cases "a line"; cases "b line") (auto simp: cast_double_def psub_def)
  then have "squaredNorm (cast_double (psub (b line) (a line))) \<noteq> 0"
    unfolding squaredNorm_def by (metis sum_squares_eq_zero_iff)
  moreover have "cross2 (vsub (cast_double ipt) (cast_double (a line))) w = - lp_c0' " 
    if "lp_c0' = cross2 (cast_double (psub (a line) ipt)) w" for w lp_c0'
    using that by (simp add: cross2_def vsub_def cast_double_def psub_def algebra_simps)
  ultimately show ?thesis
    by (subst ray_point_distance_cross) (simp_all add: lp_c0_def)
qed

text \<open>A point on the line through the end points has cross product and distance zero.\<close>

lemma on_line_lp_c0:
  assumes "on_line line ipt"
  shows "lp_c0 line ipt = 0"
proof -
  have "real_of_int ((fst (a line) - fst ipt) * (snd (b line) - snd (a line)))
          = real_of_int ((snd (a line) - snd ipt) * (fst (b line) - fst (a line)))"
    using assms by (simp only: on_line_def)
  then show ?thesis
    by (simp add: lp_c0_def cross2_def cast_double_def psub_def)
qed

lemma on_line_distance:
  assumes "a line \<noteq> b line" and "on_line line ipt"
  shows "ray_point_distance (cast_double (a line)) (cast_double (psub (b line) (a line)))
           (cast_double ipt) = 0"
  by (simp add: lp_c0_distance[OF assms(1)] on_line_lp_c0[OF assms(2)])


subsection \<open>The loop over the edges\<close>


lemma set_y_length [simp]: "length (set_y out i v) = length out"
  by (simp add: set_y_def)

lemma set_y_nth_neq [simp]: "e \<noteq> i \<Longrightarrow> set_y out i v ! e = out ! e"
  by (simp add: set_y_def)

lemma set_y_nth_eq [simp]: "i < length out \<Longrightarrow> set_y out i v ! i = (fst (out ! i), v)"
  by (simp add: set_y_def)

lemma frame_refl: "frame i j out out"
  by (simp add: frame_def)

lemma infinite_edge_frame:
  "infinite_edge vd c c2 line0 line1 v0 D dmin i j out = Inr out' \<Longrightarrow> frame i j out out'"
  by (auto simp: infinite_edge_def frame_def Let_def split: if_splits option.splits)

lemma linear_edge_frame:
  "linear_edge vd bis v0 w1 D d0 d1 dmin dmax i j out = Inr (out', dn) \<Longrightarrow> frame i j out out'"
  by (auto simp: linear_edge_def frame_def Let_def split: if_splits option.splits)

lemma nonmonotone_edge_frame:
  "nonmonotone_edge vd c c2 line0 line1 v0 w1 D D2 d0 d1 dmin i j out = Inr (out', dn) \<Longrightarrow> frame i j out out'"
  by (auto simp: nonmonotone_edge_def frame_def Let_def split: if_splits option.splits prod.splits)

lemma process_edge_frame:
  "process_edge vd lines ds outside D D2 i out = Inr out' \<Longrightarrow> frame i (twin (edges vd ! i)) out out'"
  unfolding process_edge_def Let_def
  by (auto split: if_splits option.splits sum.splits prod.splits
        dest!: infinite_edge_frame linear_edge_frame nonmonotone_edge_frame
        simp: frame_def)

lemma process_edge_skipped:
  "edge_skipped vd ds outside D i \<Longrightarrow> process_edge vd lines ds outside D D2 i out = Inr out"
  by (simp add: process_edge_def)

lemma edge_skipped_twin:
  assumes "twins_paired vd" "e < length (edges vd)"
  shows "edge_skipped vd ds outside D (twin (edges vd ! e)) = edge_skipped vd ds outside D e"
proof -
  have v: "vertex0 (edges vd ! (twin (edges vd ! e))) = vertex1 (edges vd ! e)"
          "vertex1 (edges vd ! (twin (edges vd ! e))) = vertex0 (edges vd ! e)"
    using assms by (auto simp: twins_paired_def)
  have d: "edge_d0 vd ds outside (twin (edges vd ! e)) = edge_d1 vd ds outside e"
          "edge_d1 vd ds outside (twin (edges vd ! e)) = edge_d0 vd ds outside e"
    by (simp_all add: edge_d0_def edge_d1_def v)
  have "edge_dmax vd ds outside (twin (edges vd ! e)) = edge_dmax vd ds outside e"
    by (auto simp: edge_dmax_def d)
  then show ?thesis
    by (auto simp: edge_skipped_def v)
qed

lemma process_edge_skipped_clear:
  assumes tp: "twins_paired vd" and i: "i < length (edges vd)"
      and st: "process_edge vd lines ds outside D D2 i out = Inr out'"
      and inv: "skipped_clear vd ds outside D out"
  shows "skipped_clear vd ds outside D out'"
proof (cases "edge_skipped vd ds outside D i")
  case True
  then show ?thesis using st inv by (simp add: process_edge_skipped)
next
  case False
  have fr: "frame i (twin (edges vd ! i)) out out'" using st by (rule process_edge_frame)
  show ?thesis
    unfolding skipped_clear_def
  proof (intro allI impI)
    fix e assume e: "e < length (edges vd)" and sk: "edge_skipped vd ds outside D e"
    have "e \<noteq> i" using sk False by auto
    moreover have "e \<noteq> twin (edges vd ! i)"
      using sk False edge_skipped_twin[OF tp i] by auto
    ultimately have "out' ! e = out ! e" using fr by (simp add: frame_def)
    then show "fst (out' ! e) = None" using inv e sk by (simp add: skipped_clear_def)
  qed
qed

lemma edge_loop_skipped_clear:
  assumes tp: "twins_paired vd"
  shows "\<forall>i \<in> set is. i < length (edges vd) \<Longrightarrow>
         edge_loop vd lines ds outside D D2 is out = Inr out' \<Longrightarrow>
         skipped_clear vd ds outside D out \<Longrightarrow> skipped_clear vd ds outside D out'"
proof (induction "is" arbitrary: out)
  case Nil
  then show ?case by simp
next
  case (Cons i "is")
  from Cons.prems(2) obtain out1 where
      s1: "process_edge vd lines ds outside D D2 i out = Inr out1"
      and s2: "edge_loop vd lines ds outside D D2 is out1 = Inr out'"
    by (auto split: sum.splits)
  have "skipped_clear vd ds outside D out1"
    using process_edge_skipped_clear[OF tp _ s1 Cons.prems(3)] Cons.prems(1) by simp
  then show ?case using Cons.IH[OF _ s2] Cons.prems(1) by simp
qed

lemma edge_loop_length:
  "edge_loop vd lines ds outside D D2 is out = Inr out' \<Longrightarrow> length out' = length out"
proof (induction "is" arbitrary: out)
  case Nil
  then show ?case by simp
next
  case (Cons i "is")
  from Cons.prems obtain out1 where
      s1: "process_edge vd lines ds outside D D2 i out = Inr out1"
      and s2: "edge_loop vd lines ds outside D D2 is out1 = Inr out'"
    by (auto split: sum.splits)
  have "length out1 = length out" using process_edge_frame[OF s1] by (simp add: frame_def)
  then show ?case using Cons.IH[OF s2] by simp
qed

lemma edge_dmax_max: "edge_dmax vd ds outside e = max (edge_d0 vd ds outside e) (edge_d1 vd ds outside e)"
  by (simp add: edge_dmax_def max_def)

lemma edge_dmin_min: "edge_dmin vd ds outside e = min (edge_d0 vd ds outside e) (edge_d1 vd ds outside e)"
  by (auto simp add: edge_dmin_def min_def)

lemma pair_ok_sym: "pair_ok i j out = pair_ok j i out"
  by (auto simp: pair_ok_def)

lemma store_point_has [simp]: "edge_offset_has_intersection (store_point p)"
  by (simp add: store_point_def edge_offset_has_intersection_def)

lemma store_point_not_initial [simp]: "store_point p \<noteq> (None, 0)"
  by (simp add: store_point_def)

lemma infinite_edge_pair:
  assumes "infinite_edge vd c c2 line0 line1 v0 D dmin i j out = Inr out'"
      and "i \<noteq> j" "i < length out" "j < length out"
      and "out ! i = (None, 0)" "pair_ok i j out"
  shows "pair_ok i j out'"
  using assms
  by (auto simp: infinite_edge_def pair_ok_def Let_def edge_offset_has_intersection_def
      split: if_splits option.splits)

lemma linear_edge_pair:
  assumes "linear_edge vd bis v0 w1 D d0 d1 dmin dmax i j out = Inr (out', dn)"
      and "i \<noteq> j" "i < length out" "j < length out"
  shows "if dn then pair_ok i j out' else out' = out"
  using assms
  by (auto simp: linear_edge_def pair_ok_def Let_def edge_offset_has_intersection_def
      split: if_splits option.splits)

lemma nonmonotone_edge_pair:
  assumes "nonmonotone_edge vd c c2 line0 line1 v0 w1 D D2 d0 d1 dmin i j out = Inr (out', dn)"
      and "i \<noteq> j" "i < length out" "j < length out"
  shows "if dn then pair_ok i j out' else out' = out"
  using assms
  by (auto simp: nonmonotone_edge_def pair_ok_def Let_def edge_offset_has_intersection_def
      split: if_splits option.splits prod.splits)

lemma visited_both_pair:
  assumes "i \<noteq> j" "i < length out" "j < length out"
  shows "pair_ok i j (set_y (set_y out j 1) i 1)"
  using assms by (simp add: pair_ok_def)

lemma process_edge_unchanged:
  "edge_offset_has_intersection (out ! i) \<or> snd (out ! i) \<noteq> 0 \<or> edge_skipped vd ds outside D i
     \<Longrightarrow> process_edge vd lines ds outside D D2 i out = Inr out"
  by (auto simp: process_edge_def)

lemma process_edge_pair:
  assumes st: "process_edge vd lines ds outside D D2 i out = Inr out'"
      and ne: "i \<noteq> twin (edges vd ! i)"
      and il: "i < length out" and jl: "twin (edges vd ! i) < length out"
      and ok: "pair_ok i (twin (edges vd ! i)) out"
  shows "pair_ok i (twin (edges vd ! i)) out'"
proof (cases "edge_offset_has_intersection (out ! i) \<or> snd (out ! i) \<noteq> 0
              \<or> edge_skipped vd ds outside D i")
  case True
  then have "out' = out" using st process_edge_unchanged[OF True] by simp
  then show ?thesis using ok by simp
next
  case False
  then have init: "out ! i = (None, 0)"
    by (cases "out ! i") (auto simp: edge_offset_has_intersection_def)
  show ?thesis
  proof (cases "vertex1 (edges vd ! i)")
    case None
    then show ?thesis
      using st False infinite_edge_pair[OF _ ne il jl init ok]
      by (simp add: process_edge_def Let_def)
  next
    case (Some w1)
    define r where "r =
       (if (contains_segment (cells vd ! cell (edges vd ! i))
            \<and> contains_segment (cells vd ! cell (edges vd ! twin (edges vd ! i))))
           \<or> is_secondary (edges vd ! i)
        then linear_edge vd (contains_segment (cells vd ! cell (edges vd ! i))
                 \<and> contains_segment (cells vd ! cell (edges vd ! twin (edges vd ! i))))
               (vertex0 (edges vd ! i)) w1 D (edge_d0 vd ds outside i) (edge_d1 vd ds outside i)
               (edge_dmin vd ds outside i) (edge_dmax vd ds outside i) i (twin (edges vd ! i)) out
        else nonmonotone_edge vd (cells vd ! cell (edges vd ! i))
               (cells vd ! cell (edges vd ! twin (edges vd ! i)))
               (lines ! source_index (cells vd ! cell (edges vd ! i)))
               (lines ! source_index (cells vd ! cell (edges vd ! twin (edges vd ! i))))
               (vertex0 (edges vd ! i)) w1 D D2 (edge_d0 vd ds outside i) (edge_d1 vd ds outside i)
               (edge_dmin vd ds outside i) i (twin (edges vd ! i)) out)"
    have st': "(case r of Inl e \<Rightarrow> Inl e
                | Inr (o1, dn) \<Rightarrow> if dn then Inr o1
                    else Inr (set_y (set_y o1 (twin (edges vd ! i)) 1) i 1)) = Inr out'"
      using st False Some by (simp add: process_edge_def Let_def r_def)
    then obtain o1 dn where r: "r = Inr (o1, dn)"
      by (cases r) (auto split: prod.splits)
    have br: "if dn then pair_ok i (twin (edges vd ! i)) o1 else o1 = out"
      using r linear_edge_pair[OF _ ne il jl] nonmonotone_edge_pair[OF _ ne il jl]
      unfolding r_def by (simp split: if_splits)
    show ?thesis
    proof (cases dn)
      case True
      then show ?thesis using st' r br by simp
    next
      case False
      then have "out' = set_y (set_y out (twin (edges vd ! i)) 1) i 1"
        using st' r br by simp
      then show ?thesis using visited_both_pair[OF ne il jl] by simp
    qed
  qed
qed

lemma process_edge_twins_classified:
  assumes tp: "twins_paired vd" and i: "i < length (edges vd)"
      and len: "length out = length (edges vd)"
      and st: "process_edge vd lines ds outside D D2 i out = Inr out'"
      and inv: "twins_classified vd out"
  shows "twins_classified vd out'"
proof -
  define j where "j = twin (edges vd ! i)"
  have j: "j < length (edges vd)" "j \<noteq> i" "twin (edges vd ! j) = i"
    using tp i by (auto simp: twins_paired_def j_def)
  have fr: "frame i j out out'" using st unfolding j_def by (rule process_edge_frame)
  have ok: "pair_ok i j out"
    using inv i j by (auto simp: pair_ok_def twins_classified_def j_def)
  have ok': "pair_ok i j out'"
    using process_edge_pair[OF st] j i len ok unfolding j_def by auto
  show ?thesis
    unfolding twins_classified_def
  proof (intro allI impI)
    fix e assume e: "e < length (edges vd)" and h: "edge_offset_has_intersection (out' ! e)"
    have te: "twin (edges vd ! e) < length (edges vd)" "twin (edges vd ! (twin (edges vd ! e))) = e"
      using tp e by (auto simp: twins_paired_def)
    consider "e = i" | "e = j" | "e \<noteq> i" "e \<noteq> j" by blast
    then show "out' ! twin (edges vd ! e) \<noteq> (None, 0)"
    proof cases
      case 1
      then show ?thesis using ok' h by (simp add: pair_ok_def j_def)
    next
      case 2
      then show ?thesis using ok' h j by (simp add: pair_ok_def)
    next
      case 3
      have "twin (edges vd ! e) \<noteq> i"
      proof
        assume "twin (edges vd ! e) = i"
        then have "twin (edges vd ! i) = e" using te(2) by simp
        then show False using 3 by (simp add: j_def)
      qed
      moreover have "twin (edges vd ! e) \<noteq> j"
      proof
        assume "twin (edges vd ! e) = j"
        then have "twin (edges vd ! j) = e" using te(2) by simp
        then show False using 3 j(3) by simp
      qed
      ultimately have "out' ! twin (edges vd ! e) = out ! twin (edges vd ! e)" "out' ! e = out ! e"
        using fr 3 by (simp_all add: frame_def)
      then show ?thesis using inv e h by (simp add: twins_classified_def)
    qed
  qed
qed

lemma edge_loop_twins_classified:
  assumes tp: "twins_paired vd"
  shows "\<forall>i \<in> set is. i < length (edges vd) \<Longrightarrow>
         length out = length (edges vd) \<Longrightarrow>
         edge_loop vd lines ds outside D D2 is out = Inr out' \<Longrightarrow>
         twins_classified vd out \<Longrightarrow> twins_classified vd out'"
proof (induction "is" arbitrary: out)
  case Nil
  then show ?case by simp
next
  case (Cons i "is")
  from Cons.prems(3) obtain out1 where
      s1: "process_edge vd lines ds outside D D2 i out = Inr out1"
      and s2: "edge_loop vd lines ds outside D D2 is out1 = Inr out'"
    by (auto split: sum.splits)
  have l1: "length out1 = length (edges vd)"
    using process_edge_frame[OF s1] Cons.prems(2) by (simp add: frame_def)
  have "twins_classified vd out1"
    using process_edge_twins_classified[OF tp _ Cons.prems(2) s1 Cons.prems(4)] Cons.prems(1) by simp
  then show ?case using Cons.IH[OF _ l1 s2] Cons.prems(1) by simp
qed

subsection \<open>Evaluation on the worked diagrams\<close>

lemmas vec_defs = vsub_def vadd_def vscale_def dot_def squaredNorm_def norm2_def cast_double_def
  psub_def swap_xy_def cross2_def lerp_def clamp_def vertex_point_def

lemmas vd_defs = contains_point_def contains_segment_def contour_point_def edge_cell_def
  mk_edge_def mk_vertex_def mk_cell_def

lemmas solver_defs = edge_offset_contour_intersections_def process_edge_def edge_skipped_def
  edge_d0_def edge_d1_def edge_dmin_def edge_dmax_def endpoint_distance_def DBL_MAX_def
  infinite_edge_def linear_edge_def nonmonotone_edge_def refine_dmin_def projected_dmin_def
  select_intersections_def set_y_def store_point_def edge_offset_has_intersection_def

lemmas annotate_defs = annotate_inside_outside_def reset_inside_outside_annotations_def
  annotate_edge_first_def annotate_infinite_edge_def annotate_finite_edge_def
  find_pt_on_contour_def v1_on_contour_def rounds_to_def annotate_cell_def set_cell_category_def
  annotate_vertex_def annotate_edge_def expand_edge_def trunc_coord_def

lemmas count_defs = boundary_counts_def num_edges_with_def num_vertices_with_def cell_edges_def
  head_category_def categories_def

lemma triangle_twins_paired: "twins_paired triangle_vd"
  by code_simp

lemma triangle_inward_half_run:
  "edge_offset_contour_intersections triangle_vd triangle_lines [0, 0, 0, - 1] (- 1 / 2) =
     Inr triangle_inward_half"
  by (simp add: solver_defs vd_defs vec_defs triangle_vd_def triangle_lines_def Let_def
        upt_rec numeral_eq_Suc triangle_inward_half_def)

lemma sqrt_576: "sqrt 576 = 24"
  using real_sqrt_abs[of 24] by simp

lemma sqrt_49: "sqrt 49 = 7"
  using real_sqrt_abs[of 7] by simp

lemma sqrt_28224: "sqrt 28224 = 168"
  using real_sqrt_abs[of 168] by simp

subsection \<open>Signed distances\<close>


lemma find_point_cell_rot_edges:
  "rot_edges vd first_edge e k = Some es \<Longrightarrow>
   find_point_cell vd first_edge e k =
     Some (case List.find (\<lambda>e. contains_point (edge_cell vd e)) es of
             Some x \<Rightarrow> (Some (cell (edges vd ! x)), x)
           | None \<Rightarrow> (None, first_edge))"
proof (induction k arbitrary: e es)
  case 0
  then show ?case by simp
next
  case (Suc k)
  show ?case
  proof (cases "rot_next (edges vd ! e) = first_edge")
    case True
    then have "es = [e]" using Suc.prems by (simp add: Let_def)
    then show ?thesis using True by (simp add: Let_def)
  next
    case False
    then obtain es' where es': "rot_edges vd first_edge (rot_next (edges vd ! e)) k = Some es'"
        and es: "es = e # es'"
      using Suc.prems by (auto simp: Let_def)
    show ?thesis using Suc.IH[OF es'] False by (simp add: es Let_def)
  qed
qed

lemma vertex_signed_distance_spec:
  assumes "vertex_category v \<noteq> VC_OnContour \<longrightarrow> incident_edges vd v \<noteq> None"
  shows "vertex_signed_distance vd lines v =
           Inr (signed_distance_spec vd lines v (incident_edges_list vd v))"
proof (cases "vertex_category v = VC_OnContour")
  case True
  then show ?thesis by (simp add: vertex_signed_distance_def signed_distance_spec_def)
next
  case False
  then obtain es where es: "incident_edges vd v = Some es" using assms by auto
  have f: "find_point_cell vd (vertex_incident_edge v) (vertex_incident_edge v) (length (edges vd)) =
     Some (case List.find (\<lambda>e. contains_point (edge_cell vd e)) es of
             Some x \<Rightarrow> (Some (cell (edges vd ! x)), x)
           | None \<Rightarrow> (None, vertex_incident_edge v))"
    using es unfolding incident_edges_def by (rule find_point_cell_rot_edges)
  show ?thesis
    using False
    by (cases "vertex_category v"; cases "List.find (\<lambda>e. contains_point (edge_cell vd e)) es")
       (simp_all add: vertex_signed_distance_def signed_distance_spec_def unsigned_distance_spec_def
          incident_edges_list_def es f Let_def site_point_def site_line_distance_def edge_cell_def)
qed

lemma collect_map_Inr:
  "\<forall>x \<in> set xs. f x = Inr (g x) \<Longrightarrow> collect (map f xs) = Inr (map g xs)"
  by (induction xs) simp_all

lemma norm2_nonneg: "0 \<le> norm2 p"
  by (simp add: norm2_def squaredNorm_def)

lemma unsigned_distance_spec_nonneg: "0 \<le> unsigned_distance_spec vd lines v es"
  by (simp add: unsigned_distance_spec_def site_line_distance_def ray_point_distance_def
      norm2_nonneg Let_def split: option.splits)

lemma signed_distance_spec_sgn:
  assumes "vertex_category v \<noteq> VC_Unknown"
      and "vertex_category v \<noteq> VC_OnContour \<longrightarrow> unsigned_distance_spec vd lines v es \<noteq> 0"
  shows "sgn (signed_distance_spec vd lines v es) = category_sign (vertex_category v)"
  using assms unsigned_distance_spec_nonneg[of vd lines v es]
  by (cases "vertex_category v")
     (auto simp: signed_distance_spec_def category_sign_def sgn_if)

lemma sqrt_169: "sqrt 169 = 13"
  using real_sqrt_abs[of 13] by simp

lemma triangle_incident_edges:
  "map (incident_edges triangle_vd) (vertices triangle_vd)
     = [Some [0, 8, 6], Some [2, 10, 12], Some [4, 14, 16], Some [1, 3, 5]]"
  by (simp add: incident_edges_def triangle_vd_def mk_edge_def mk_cell_def mk_vertex_def numeral_eq_Suc Let_def)

lemma triangle_signed_vertex_distances:
  "signed_vertex_distances triangle_vd triangle_lines = Inr [0, 0, 0, - 1]"
  by (simp add: signed_vertex_distances_def vertex_signed_distance_def triangle_vd_def
      triangle_lines_def vd_defs vec_defs numeral_eq_Suc Let_def ray_point_distance_def foot_pt_def)

lemma tips_signed_vertex_distances:
  "signed_vertex_distances (tips_vd (- 5)) tips_lines = Inr [13, 15]"
  by (simp add: signed_vertex_distances_def vertex_signed_distance_def tips_vd_def
      tips_lines_def vd_defs vec_defs numeral_eq_Suc Let_def sqrt_169)

subsection \<open>The tracer\<close>


lemma next_offset_edge_loop_walk:
  "next_edges vd start e k = Some es \<Longrightarrow>
   next_offset_edge_loop vd ep start e k =
     Inr (map_option (\<lambda>x. twin (edges vd ! x))
            (List.find (\<lambda>x. edge_offset_has_intersection (ep ! twin (edges vd ! x))) es))"
proof (induction k arbitrary: e es)
  case 0
  then show ?case by simp
next
  case (Suc k)
  show ?case
  proof (cases "e = start")
    case True
    then show ?thesis using Suc.prems by simp
  next
    case False
    then obtain es' where es': "next_edges vd start (edge_next (edges vd ! e)) k = Some es'"
        and es: "es = e # es'"
      using Suc.prems by auto
    show ?thesis using Suc.IH[OF es'] False by (simp add: es)
  qed
qed

lemma next_offset_edge_walk:
  "cell_walk vd start = Some es \<Longrightarrow>
   next_offset_edge vd ep start =
     Inr (map_option (\<lambda>x. twin (edges vd ! x))
            (List.find (\<lambda>x. edge_offset_has_intersection (ep ! twin (edges vd ! x))) es))"
  unfolding cell_walk_def next_offset_edge_def by (rule next_offset_edge_loop_walk)

lemma trunc_coord_values:
  "trunc_coord (1 / 2) = 0" "trunc_coord (5 / 2) = 2" "trunc_coord 2 = 2"
proof -
  have "\<lfloor>1 / 2 :: real\<rfloor> = 0" by (rule floor_unique) simp_all
  then show "trunc_coord (1 / 2) = 0" unfolding trunc_coord_def by simp
  have "\<lfloor>5 / 2 :: real\<rfloor> = 2" by (rule floor_unique) simp_all
  then show "trunc_coord (5 / 2) = 2" unfolding trunc_coord_def by simp
  show "trunc_coord 2 = 2" unfolding trunc_coord_def by simp
qed

lemma has_intersection_simps:
  "edge_offset_has_intersection (Some x, y)" "\<not> edge_offset_has_intersection (None, y)"
  by (simp_all add: edge_offset_has_intersection_def)

lemma triangle_cell_walk: "cell_walk triangle_vd 4 = Some [3, 12, 15]"
  by (simp add: cell_walk_def triangle_vd_def mk_edge_def mk_cell_def numeral_eq_Suc)

lemma triangle_offset_inward_half:
  "offset triangle_vd triangle_lines [0, 0, 0, - 1] (- 1 / 2) eps = Inr [[(0, 2), (2, 0), (0, 0)]]"
  unfolding offset_def triangle_inward_half_run
  by (simp add: next_offset_edge_def triangle_vd_def mk_edge_def mk_cell_def numeral_eq_Suc triangle_inward_half_def
       has_intersection_simps Let_def point_of_def contains_point_def edge_cell_def trunc_coord_values
       upt_rec)

subsection \<open>Claims about the kernels\<close>




subsection \<open>Claims about the loop over the edges\<close>

text \<open>
  Claim C3. Let \<open>d0\<close> and \<open>d1\<close> be the distances of the tail and the head of a half-edge
  \<open>e\<close>, an absent vertex counting as the largest double, both negated for an inward offset.
  If \<open>d0 = d1\<close>, or if the offset distance \<open>D = \<bar>delta\<bar>\<close> is at least \<open>max d0 d1\<close>
  (equality included), the array returned by \<open>edge_offset_contour_intersections\<close> has no
  intersection point on \<open>e\<close>.
\<close>

theorem no_intersection_past_dmax:
  assumes "twins_paired vd"
      and "edge_offset_contour_intersections vd lines vertex_distances delta = Inr out"
      and "e < length (edges vd)"
      and "endpoint_distance vertex_distances (vertex0 (edges vd ! e))
             = endpoint_distance vertex_distances (vertex1 (edges vd ! e))
           \<or> max (edge_d0 vd vertex_distances (0 < delta) e) (edge_d1 vd vertex_distances (0 < delta) e)
               \<le> \<bar>delta\<bar>"
  shows "length out = length (edges vd) \<and> \<not> edge_offset_has_intersection (out ! e)"
proof -
  define D where "D = (if \<not> 0 < delta then - delta else delta)"
  have D: "D = \<bar>delta\<bar>" by (simp add: D_def)
  have run: "edge_loop vd lines vertex_distances (0 < delta) D (delta * delta)
               [0 ..< length (edges vd)] (replicate (length (edges vd)) (None, 0)) = Inr out"
    using assms(2) by (simp add: edge_offset_contour_intersections_def Let_def D_def)
  have init: "skipped_clear vd vertex_distances (0 < delta) D (replicate (length (edges vd)) (None, 0))"
    by (simp add: skipped_clear_def)
  have "skipped_clear vd vertex_distances (0 < delta) D out"
    using edge_loop_skipped_clear[OF assms(1) _ run init] by simp
  moreover have "edge_skipped vd vertex_distances (0 < delta) D e"
    using assms(4) by (simp add: edge_skipped_def edge_dmax_max D)
  ultimately have "fst (out ! e) = None" using assms(3) by (simp add: skipped_clear_def)
  moreover have "length out = length (edges vd)" using edge_loop_length[OF run] by simp
  ultimately show ?thesis by (simp add: edge_offset_has_intersection_def)
qed

theorem no_intersection_past_dmax_witness:
  "twins_paired triangle_vd
   \<and> edge_offset_contour_intersections triangle_vd triangle_lines [0, 0, 0, - 1] (- 1 / 2)
       = Inr triangle_inward_half
   \<and> (6 :: nat) < length (edges triangle_vd)
   \<and> max (edge_d0 triangle_vd [0, 0, 0, - 1] (0 < (- 1 / 2 :: real)) 6)
          (edge_d1 triangle_vd [0, 0, 0, - 1] (0 < (- 1 / 2 :: real)) 6) \<le> \<bar>- 1 / 2\<bar>
   \<and> length triangle_inward_half = length (edges triangle_vd)
   \<and> \<not> edge_offset_has_intersection (triangle_inward_half ! 6)"
proof -
  have h3: "(6 :: nat) < length (edges triangle_vd)" by (simp add: triangle_vd_def)
  have h4: "max (edge_d0 triangle_vd [0, 0, 0, - 1] (0 < (- 1 / 2 :: real)) 6)
          (edge_d1 triangle_vd [0, 0, 0, - 1] (0 < (- 1 / 2 :: real)) 6) \<le> \<bar>- 1 / 2\<bar>"
    by (simp add: edge_d0_def edge_d1_def endpoint_distance_def DBL_MAX_def triangle_vd_def mk_edge_def mk_cell_def)
  show ?thesis
    using no_intersection_past_dmax [OF triangle_twins_paired triangle_inward_half_run h3 disjI2, OF h4]
      triangle_twins_paired triangle_inward_half_run h3 h4
    by simp
qed

text \<open>
  Claim C9. In the array returned by \<open>edge_offset_contour_intersections\<close>, a half-edge that
  carries an intersection point has a twin that is not in the initial state \<open>(NaN, 0)\<close>:
  the twin carries the other point or has been marked visited.
\<close>

theorem stored_point_classifies_twin:
  assumes "twins_paired vd"
      and "edge_offset_contour_intersections vd lines vertex_distances delta = Inr out"
      and "e < length (edges vd)"
      and "edge_offset_has_intersection (out ! e)"
  shows "out ! twin (edges vd ! e) \<noteq> (None, 0)"
proof -
  define D where "D = (if \<not> 0 < delta then - delta else delta)"
  have run: "edge_loop vd lines vertex_distances (0 < delta) D (delta * delta)
               [0 ..< length (edges vd)] (replicate (length (edges vd)) (None, 0)) = Inr out"
    using assms(2) by (simp add: edge_offset_contour_intersections_def Let_def D_def)
  have init: "twins_classified vd (replicate (length (edges vd)) (None, 0))"
    by (simp add: twins_classified_def edge_offset_has_intersection_def)
  have "twins_classified vd out"
    using edge_loop_twins_classified[OF assms(1) _ _ run init] by simp
  then show ?thesis using assms(3,4) by (simp add: twins_classified_def)
qed

theorem stored_point_classifies_twin_witness:
  "twins_paired triangle_vd
   \<and> edge_offset_contour_intersections triangle_vd triangle_lines [0, 0, 0, - 1] (- 1 / 2)
       = Inr triangle_inward_half
   \<and> (0 :: nat) < length (edges triangle_vd)
   \<and> edge_offset_has_intersection (triangle_inward_half ! 0)
   \<and> triangle_inward_half ! twin (edges triangle_vd ! 0) \<noteq> (None, 0)"
proof -
  have h3: "(0 :: nat) < length (edges triangle_vd)" by (simp add: triangle_vd_def)
  have h4: "edge_offset_has_intersection (triangle_inward_half ! 0)"
    by (simp add: triangle_inward_half_def edge_offset_has_intersection_def)
  show ?thesis
    using stored_point_classifies_twin [OF triangle_twins_paired triangle_inward_half_run h3 h4]
      triangle_twins_paired triangle_inward_half_run h3 h4
    by simp
qed

text \<open>
  Claim C4: the code at two edges between the point sites \<open>(0, 12)\<close> and \<open>(0, -12)\<close>, whose
  end points have the distances 13 and 15 from the sites.

  On the edge from \<open>(-5, 0)\<close> to \<open>(9, 0)\<close> the foot of the site lies inside the edge and the
  minimum of the distance along the edge is 12, its square the 144 that \<open>projected_dmin\<close>
  computes. For the offset distance 11, below the minimum 13 of the end points, the source
  compares \<open>11\<^sup>2 = 121\<close> with the unsquared 13, does not refine, and looks for an
  intersection although \<open>121 < 144\<close>; the kernel finds none.

  On the edge from \<open>(5, 0)\<close> to \<open>(9, 0)\<close> the foot lies outside the edge and the minimum
  along the edge is 13. For the offset distance \<open>25/2\<close>, below that minimum, the source stores
  the point \<open>(7/2, 0)\<close>, which is not on the edge, on the first half-edge.
\<close>

theorem squared_offset_against_unsquared_minimum:
  "edge_dmin (tips_vd (- 5)) [13, 15] True 0 = 13
   \<and> projected_dmin False (tips_lines ! 0) (- 5, 0) (9, 0) (0, 12) 13 = 144
   \<and> refine_dmin False (tips_lines ! 0) (- 5, 0) (9, 0) (0, 12) (11 * 11) 13 = (True, False, 13)
   \<and> count (point_point_equal_distance_points (0, 12) (0, - 12) 11) = 0
   \<and> edge_offset_contour_intersections (tips_vd (- 5)) tips_lines [13, 15] 11
       = Inr [(None, 1), (None, 1)]
   \<and> edge_dmin (tips_vd 5) [13, 15] True 0 = 13
   \<and> projected_dmin False (tips_lines ! 0) (5, 0) (9, 0) (0, 12) 13 = 13
   \<and> refine_dmin False (tips_lines ! 0) (5, 0) (9, 0) (0, 12) (25 / 2 * (25 / 2)) 13 = (True, False, 13)
   \<and> edge_offset_contour_intersections (tips_vd 5) tips_lines [13, 15] (25 / 2)
       = Inr [(Some (7 / 2), 0), (None, 1)]"
proof (intro conjI)
  show "edge_offset_contour_intersections (tips_vd (- 5)) tips_lines [13, 15] 11
       = Inr [(None, 1), (None, 1)]"
    by (simp add: solver_defs vd_defs vec_defs tips_vd_def tips_lines_def Let_def
        upt_rec numeral_eq_Suc point_point_equal_distance_points_def)
  show "edge_offset_contour_intersections (tips_vd 5) tips_lines [13, 15] (25 / 2)
       = Inr [(Some (7 / 2), 0), (None, 1)]"
    by (simp add: solver_defs vd_defs vec_defs tips_vd_def tips_lines_def Let_def
        upt_rec numeral_eq_Suc point_point_equal_distance_points_def sqrt_28224 sqrt_576 sqrt_49
        real_sqrt_mult)
qed (simp_all add: solver_defs vd_defs vec_defs tips_vd_def tips_lines_def Let_def
        point_point_equal_distance_points_def)

subsection \<open>Claim about the signed distances\<close>

text \<open>
  Claim C2. Where the walk around every vertex off the contour comes back to its incident
  edge, \<open>signed_vertex_distances\<close> returns one value for each vertex: zero for a vertex on
  the contour; otherwise the distance to the site point of the first incident point cell if
  an incident cell is a point cell, else the distance to the line of the first incident
  cell; negated exactly for a vertex inside. For an annotated vertex that does not lie on
  its site unless it is on the contour, the sign of the value is \<open>-1\<close> inside, \<open>+1\<close>
  outside and \<open>0\<close> on the contour.
\<close>

theorem signed_vertex_distances_by_category:
  assumes "\<forall>v \<in> set (vertices vd). vertex_category v \<noteq> VC_OnContour \<longrightarrow> incident_edges vd v \<noteq> None"
      and "i < length (vertices vd)"
  shows "\<exists>out. signed_vertex_distances vd lines = Inr out
           \<and> length out = length (vertices vd)
           \<and> out ! i = signed_distance_spec vd lines (vertices vd ! i)
                          (incident_edges_list vd (vertices vd ! i))
           \<and> (vertex_category (vertices vd ! i) \<noteq> VC_Unknown
              \<and> (vertex_category (vertices vd ! i) \<noteq> VC_OnContour
                   \<longrightarrow> unsigned_distance_spec vd lines (vertices vd ! i)
                         (incident_edges_list vd (vertices vd ! i)) \<noteq> 0)
              \<longrightarrow> sgn (out ! i) = category_sign (vertex_category (vertices vd ! i)))"
proof -
  have "signed_vertex_distances vd lines =
          Inr (map (\<lambda>v. signed_distance_spec vd lines v (incident_edges_list vd v)) (vertices vd))"
    unfolding signed_vertex_distances_def
    using assms(1) by (intro collect_map_Inr ballI vertex_signed_distance_spec) simp
  then show ?thesis
    using assms(2) signed_distance_spec_sgn by simp
qed

theorem signed_vertex_distances_by_category_witness:
  "map (incident_edges triangle_vd) (vertices triangle_vd)
       = [Some [0, 8, 6], Some [2, 10, 12], Some [4, 14, 16], Some [1, 3, 5]]
   \<and> (3 :: nat) < length (vertices triangle_vd)
   \<and> vertex_category (vertices triangle_vd ! 3) = VC_Inside
   \<and> unsigned_distance_spec triangle_vd triangle_lines (vertices triangle_vd ! 3)
         (incident_edges_list triangle_vd (vertices triangle_vd ! 3)) = 1
   \<and> signed_vertex_distances triangle_vd triangle_lines = Inr [0, 0, 0, - 1]
   \<and> signed_distance_spec triangle_vd triangle_lines (vertices triangle_vd ! 3)
         (incident_edges_list triangle_vd (vertices triangle_vd ! 3)) = - 1
   \<and> sgn (- 1 :: real) = category_sign (vertex_category (vertices triangle_vd ! 3))"
proof -
  have h1: "\<forall>v \<in> set (vertices triangle_vd). vertex_category v \<noteq> VC_OnContour \<longrightarrow> incident_edges triangle_vd v \<noteq> None"
    using triangle_incident_edges by (simp add: triangle_vd_def mk_vertex_def)
  have h2: "(3 :: nat) < length (vertices triangle_vd)" by (simp add: triangle_vd_def)
  have h3: "vertex_category (vertices triangle_vd ! 3) = VC_Inside"
    by (simp add: triangle_vd_def mk_vertex_def)
  have h4: "unsigned_distance_spec triangle_vd triangle_lines (vertices triangle_vd ! 3)
         (incident_edges_list triangle_vd (vertices triangle_vd ! 3)) = 1"
    using triangle_incident_edges
    by (simp add: unsigned_distance_spec_def incident_edges_list_def site_line_distance_def
        triangle_vd_def triangle_lines_def vd_defs vec_defs Let_def ray_point_distance_def foot_pt_def)
  show ?thesis
    using signed_vertex_distances_by_category [OF h1 h2, of triangle_lines]
      h2 h3 h4 triangle_signed_vertex_distances triangle_incident_edges
    by (auto simp: category_sign_def)
qed

subsection \<open>Claim about an open loop\<close>

text \<open>
  Claim C6, as stated, fails: the source has no error that carries the seed edge or the
  partial polygon. On the triangle, with the intersection on the bisector at \<open>B\<close> missing,
  the walk from half-edge 4 finds no twin with an intersection. The run ends with the same
  value \<open>NullEdge\<close> when it was seeded at half-edge 0 and has built the partial polygon
  \<open>[(0, 2)]\<close> and when it was seeded at half-edge 4 with no point yet: the polygon under
  construction is dropped.
\<close>

theorem open_loop_counterexample:
  "next_offset_edge triangle_vd (triangle_inward_half[2 := (None, 1), 4 := (None, 2)]) 4 = Inr None
   \<and> trace_loop triangle_vd triangle_lines 1 0 0 (Suc (length (edges triangle_vd))) 0 (1 / 2, 1 / 2) []
         (triangle_inward_half[2 := (None, 1)]) = Inl NullEdge
   \<and> trace_loop triangle_vd triangle_lines 1 0 0 (length (edges triangle_vd)) 4 (1 / 2, 2) [(0, 2)]
         (triangle_inward_half[2 := (None, 1), 4 := (None, 2)]) = Inl NullEdge
   \<and> trace_loop triangle_vd triangle_lines 1 0 4 (Suc (length (edges triangle_vd))) 4 (1 / 2, 2) []
         (triangle_inward_half[2 := (None, 1)]) = Inl NullEdge"
  by (simp add: next_offset_edge_def triangle_vd_def mk_edge_def mk_cell_def numeral_eq_Suc triangle_inward_half_def
       has_intersection_simps Let_def point_of_def contains_point_def edge_cell_def trunc_coord_values)

text \<open>
  Claim C6, amended. During tracing, if the walk around the current cell reaches no
  half-edge whose twin carries an unconsumed intersection, \<open>next_offset_edge\<close> returns a
  null pointer and the run ends on it (\<open>assert(next_edge)\<close> in a debug build, the use of
  the null pointer otherwise). No polygon is returned, and the failure is the same whatever
  the seed edge and the partial polygon are.
\<close>

theorem open_loop_fails_without_polygon:
  assumes "cell_walk vd edge = Some es"
      and "\<forall>x \<in> set es. \<not> edge_offset_has_intersection (edge_points ! twin (edges vd ! x))"
  shows "next_offset_edge vd edge_points edge = Inr None
       \<and> trace_loop vd lines angle_step cos_threshold start_edge (Suc fuel) edge last_pt poly edge_points
           = Inl NullEdge"
proof -
  have "List.find (\<lambda>x. edge_offset_has_intersection (edge_points ! twin (edges vd ! x))) es = None"
    using assms(2) by (simp add: find_None_iff)
  then have "next_offset_edge vd edge_points edge = Inr None"
    using next_offset_edge_walk[OF assms(1), of edge_points] by simp
  then show ?thesis by simp
qed

theorem open_loop_fails_without_polygon_witness:
  "cell_walk triangle_vd 4 = Some [3, 12, 15]
   \<and> \<not> edge_offset_has_intersection
         ((triangle_inward_half[2 := (None, 1), 4 := (None, 2)]) ! twin (edges triangle_vd ! 3))
   \<and> \<not> edge_offset_has_intersection
         ((triangle_inward_half[2 := (None, 1), 4 := (None, 2)]) ! twin (edges triangle_vd ! 12))
   \<and> \<not> edge_offset_has_intersection
         ((triangle_inward_half[2 := (None, 1), 4 := (None, 2)]) ! twin (edges triangle_vd ! 15))
   \<and> next_offset_edge triangle_vd (triangle_inward_half[2 := (None, 1), 4 := (None, 2)]) 4 = Inr None
   \<and> trace_loop triangle_vd triangle_lines 1 0 0 (Suc 17) 4 (1 / 2, 2) [(0, 2)]
         (triangle_inward_half[2 := (None, 1), 4 := (None, 2)]) = Inl NullEdge"
proof -
  have h2: "\<forall>x \<in> set [3, 12, 15].
         \<not> edge_offset_has_intersection
             ((triangle_inward_half[2 := (None, 1), 4 := (None, 2)]) ! twin (edges triangle_vd ! x))"
    by (simp add: triangle_vd_def mk_edge_def mk_cell_def numeral_eq_Suc triangle_inward_half_def
          has_intersection_simps)
  show ?thesis
    using open_loop_fails_without_polygon [OF triangle_cell_walk h2, of triangle_lines 1 0 0 17 "(1 / 2, 2)" "[(0, 2)]"]
      triangle_cell_walk h2
    by simp
qed

subsection \<open>Claims about the annotation\<close>

text \<open>
  Claim C5. The shape of a boundary cell is what \<open>verify_inside_outside_annotations\<close>
  asserts at the end of \<open>annotate_inside_outside\<close>: two edges that point to the contour,
  two heads on the contour, and at least one head inside, one outside, one edge pointing
  inside and one pointing outside. The annotation produces it on \<open>triangle_vd\<close>, whose
  coordinates are not negative: the counts around the cell of the side \<open>AB\<close> are
  \<open>(2, 2, 1, 1, 1, 1)\<close>.

  On the same triangle translated to negative coordinates it does not. The source decides
  which end of a bisector or secondary edge lies on the contour by
  \<open>coord_t(v0->x() + 0.5) == pt_on_contour->x()\<close>; the conversion truncates towards zero,
  so for the vertex \<open>A = (-10, -10)\<close> it compares \<open>-9\<close> with \<open>-10\<close>, the test fails for
  both ends of the edge, and the else branch takes \<open>vertex1\<close> to be the one on the contour
  in both directions. The incentre is annotated as on the contour, all six bisector
  half-edges as pointing to the contour, and the cell of the side \<open>AB\<close>, a boundary cell,
  has three edges that point to the contour, three heads on the contour, no head inside
  and no edge pointing inside.
\<close>

theorem boundary_cell_at_negative_coordinates:
  "map_sum id (boundary_counts 0) (annotate_inside_outside triangle_vd triangle_lines)
     = Inr (2, 2, 1, 1, 1, 1)
   \<and> trunc_coord (- 10 + 0.5) = - 9
   \<and> rounds_to (vertices low_triangle_vd ! 0) (a (low_triangle_lines ! 0)) = False
   \<and> map_sum id categories (annotate_inside_outside low_triangle_vd low_triangle_lines)
     = Inr ([VC_OnContour, VC_OnContour, VC_OnContour, VC_OnContour],
            [EC_PointsToContour, EC_PointsToContour, EC_PointsToContour,
             EC_PointsToContour, EC_PointsToContour, EC_PointsToContour,
             EC_PointsOutside, EC_PointsToContour, EC_PointsOutside,
             EC_PointsToContour, EC_PointsOutside, EC_PointsToContour,
             EC_PointsOutside, EC_PointsToContour, EC_PointsOutside,
             EC_PointsToContour, EC_PointsOutside, EC_PointsToContour],
            [CC_Boundary, CC_Boundary, CC_Boundary, CC_Outside, CC_Outside, CC_Outside])
   \<and> contains_segment (cells low_triangle_vd ! 0)
   \<and> map_sum id (boundary_counts 0) (annotate_inside_outside low_triangle_vd low_triangle_lines)
     = Inr (3, 3, 0, 1, 0, 1)"
proof (intro conjI)
qed (simp_all add: annotate_defs count_defs vd_defs vec_defs low_triangle_vd_def triangle_vd_def
       low_triangle_lines_def triangle_lines_def Let_def upt_rec numeral_eq_Suc)

end
